theory Spec2Isabelle
  imports Main "HOL-Library.Sublist"
begin

section \<open>Go values shared by both source files\<close>

text \<open>
  Go's \<open>error\<close> is an open interface.  The model keeps the error types the sources
  and their collaborators mention: the SDK's not-found type \<open>golangsdk.ErrDefault404\<close>
  (with the detail it carries), the SDK's error for any other refused status code, a
  transport failure, any further error (for instance one raised by a request builder),
  the two errors of the state poller, and \<open>fmt.Errorf\<close> with its format and arguments.
\<close>

datatype goerror =
    ErrDefault404 string
  | ErrUnexpectedResponseCode int
  | ErrTransport string
  | ErrOther string
  | TimeoutError string
  | UnexpectedStateError string
  | Errorf string "fmtarg list"
and fmtarg =
    FString string
  | FStrings "string list"
  | FError goerror

text \<open>The type assertion \<open>err.(golangsdk.ErrDefault404)\<close>: it looks at the dynamic type only.\<close>

fun is404 :: "goerror \<Rightarrow> bool" where
  "is404 (ErrDefault404 detail) = True"
| "is404 e = False"

text \<open>Request and response bodies (\<open>map[string]interface{}\<close>, decoded JSON).\<close>

datatype json =
    JNull
  | JString string
  | JNumber int
  | JBool bool
  | JObject "(string \<times> json) list"

text \<open>A call either returns or panics (a failed type assertion).\<close>

datatype 'a go = Panics | Returns 'a

text \<open>\<open>time.Duration\<close> counts nanoseconds.\<close>

definition Second :: int where
  "Second = 1000000000"

definition Minute :: int where
  "Minute = 60 * Second"

section \<open>The cloud volume requests (requests.go)\<close>

subsection \<open>The HTTP client the requests are issued on\<close>

text \<open>
  \<open>golangsdk.ServiceClient\<close> is declared outside the files at hand.  The requests read
  and write its field \<open>ResourceBase\<close>; every other field is the record's extension part,
  so a statement about a whole client covers fields the model does not name.
\<close>

record ServiceClient =
  Endpoint :: string
  ResourceBase :: string

datatype http_method = GET | POST | PUT | DELETE

text \<open>
  One HTTP request as it leaves the client: the client value it was issued on, the verb,
  the URL, the JSON body, and the accepted status codes of its \<open>RequestOpts\<close>
  (\<open>None\<close> when the options are \<open>nil\<close>).
\<close>

record 'c request =
  req_via :: 'c
  req_method :: http_method
  req_url :: string
  req_body :: "json option"
  req_ok :: "int list option"

datatype reply = NetworkFailure string | Reply int "json option"

text \<open>
  What requests.go calls but does not define: the URL helpers of the package, the
  client's \<open>ResourceBaseURL\<close>, the default accepted codes of a verb, and the remote side,
  which answers a request and moves to a new state.  All are parameters.
\<close>

record ('c, 'w) sdk =
  ResourceBaseURL :: "'c \<Rightarrow> string"
  createURL :: "'c \<Rightarrow> string"
  actionURL :: "'c \<Rightarrow> string \<Rightarrow> string"
  resourceURL :: "'c \<Rightarrow> string \<Rightarrow> string"
  defaultOkCodes :: "http_method \<Rightarrow> int list"
  roundtrip :: "'c request \<Rightarrow> 'w \<Rightarrow> reply \<times> 'w"

text \<open>
  The program state: the caller's client object (the target of the pointer
  \<open>client *golangsdk.ServiceClient\<close>), the remote side, and the requests sent so far.
\<close>

record ('c, 'w) sdk_state =
  client :: 'c
  world :: 'w
  sent :: "'c request list"

text \<open>\<open>golangsdk.Result\<close>, embedded by JobResult, UpdateResult, DeleteResult and GetResult.\<close>

record Result =
  Body :: "json option"
  Err :: "goerror option"

text \<open>
  Modelled from the spec: the client's \<open>Request\<close> method, which is not among the source
  files.  Section 6 asks of the HTTP collaborator that it support GET/POST/PUT/DELETE
  with a request body and custom accepted-status-code lists, and expose a not-found
  (404) error kind distinct from the other kinds; section 4.1 has a result carry either
  a decoded body or an error.  The request is sent once; a status among the accepted
  codes is success, 404 outside them is the not-found error, any other status the
  generic one.  \<open>want\<close> says whether the caller passed a place for the decoded body.
\<close>

definition Request ::
  "('c, 'w) sdk \<Rightarrow> 'c \<Rightarrow> http_method \<Rightarrow> string \<Rightarrow> json option \<Rightarrow> bool \<Rightarrow> int list option
    \<Rightarrow> ('c, 'w) sdk_state \<Rightarrow> (json option \<times> goerror option) \<times> ('c, 'w) sdk_state" where
  "Request env c m u b want ok st =
    (let req = \<lparr>req_via = c, req_method = m, req_url = u, req_body = b, req_ok = ok\<rparr>;
         (rep, w') = roundtrip env req (world st);
         st' = st\<lparr>world := w', sent := sent st @ [req]\<rparr>;
         accepted = (case ok of None \<Rightarrow> defaultOkCodes env m | Some cs \<Rightarrow> cs)
     in case rep of
          NetworkFailure msg \<Rightarrow> ((None, Some (ErrTransport msg)), st')
        | Reply code rb \<Rightarrow>
            if code \<in> set accepted then ((if want then rb else None, None), st')
            else if code = 404 then ((None, Some (ErrDefault404 u)), st')
            else ((None, Some (ErrUnexpectedResponseCode code)), st'))"

definition ServiceClient_Get ::
  "('c, 'w) sdk \<Rightarrow> 'c \<Rightarrow> string \<Rightarrow> bool \<Rightarrow> int list option
    \<Rightarrow> ('c, 'w) sdk_state \<Rightarrow> (json option \<times> goerror option) \<times> ('c, 'w) sdk_state" where
  "ServiceClient_Get env c u want ok st = Request env c GET u None want ok st"

definition ServiceClient_Post ::
  "('c, 'w) sdk \<Rightarrow> 'c \<Rightarrow> string \<Rightarrow> json \<Rightarrow> bool \<Rightarrow> int list option
    \<Rightarrow> ('c, 'w) sdk_state \<Rightarrow> (json option \<times> goerror option) \<times> ('c, 'w) sdk_state" where
  "ServiceClient_Post env c u b want ok st = Request env c POST u (Some b) want ok st"

definition ServiceClient_Put ::
  "('c, 'w) sdk \<Rightarrow> 'c \<Rightarrow> string \<Rightarrow> json \<Rightarrow> bool \<Rightarrow> int list option
    \<Rightarrow> ('c, 'w) sdk_state \<Rightarrow> (json option \<times> goerror option) \<times> ('c, 'w) sdk_state" where
  "ServiceClient_Put env c u b want ok st = Request env c PUT u (Some b) want ok st"

definition ServiceClient_Delete ::
  "('c, 'w) sdk \<Rightarrow> 'c \<Rightarrow> string \<Rightarrow> int list option
    \<Rightarrow> ('c, 'w) sdk_state \<Rightarrow> (json option \<times> goerror option) \<times> ('c, 'w) sdk_state" where
  "ServiceClient_Delete env c u ok st = Request env c DELETE u None False ok st"

subsection \<open>Option builders\<close>

text \<open>
  Each builder interface has one method without arguments; an interface value is the
  record of what that method returns, Go's pair of a value and an error.
\<close>

record CreateOptsBuilder =
  ToVolumeCreateMap :: "json \<times> goerror option"

record ExtendOptsBuilder =
  ToVolumeExtendMap :: "json \<times> goerror option"

record UpdateOptsBuilder =
  ToVolumeUpdateMap :: "json \<times> goerror option"

record DeleteOptsBuilder =
  ToVolumeDeleteQuery :: "string \<times> goerror option"

subsection \<open>Create, ExtendSize, Update, Delete, Get\<close>

text \<open>
  The five requests that return a result.  \<open>List\<close>, which only builds a pager, is not
  part of the model.
\<close>

text \<open>\<open>strings.Replace(s, old, new, 1)\<close>: the first occurrence of \<open>old\<close> becomes \<open>new\<close>.\<close>

fun Replace_first :: "string \<Rightarrow> string \<Rightarrow> string \<Rightarrow> string" where
  "Replace_first [] old new = (if old = [] then new else [])"
| "Replace_first (c # cs) old new =
     (if prefix old (c # cs) then new @ drop (length old) (c # cs)
      else c # Replace_first cs old new)"

definition Create ::
  "('a ServiceClient_scheme, 'w) sdk \<Rightarrow> CreateOptsBuilder
    \<Rightarrow> ('a ServiceClient_scheme, 'w) sdk_state
    \<Rightarrow> Result \<times> ('a ServiceClient_scheme, 'w) sdk_state" where
  "Create env opts st =
    (case ToVolumeCreateMap opts of
       (b, Some err) \<Rightarrow> (\<lparr>Body = None, Err = Some err\<rparr>, st)
     | (b, None) \<Rightarrow>
         (let newClient = client st;
              baseURL = ResourceBaseURL env newClient;
              newClient = newClient\<lparr>ResourceBase := Replace_first baseURL ''/v2/'' ''/v2.1/''\<rparr>;
              ((rb, err), st') =
                 ServiceClient_Post env newClient (createURL env newClient) b True None st
          in (\<lparr>Body = rb, Err = err\<rparr>, st')))"

definition ExtendSize ::
  "('a ServiceClient_scheme, 'w) sdk \<Rightarrow> string \<Rightarrow> ExtendOptsBuilder
    \<Rightarrow> ('a ServiceClient_scheme, 'w) sdk_state
    \<Rightarrow> Result \<times> ('a ServiceClient_scheme, 'w) sdk_state" where
  "ExtendSize env ident opts st =
    (case ToVolumeExtendMap opts of
       (b, Some err) \<Rightarrow> (\<lparr>Body = None, Err = Some err\<rparr>, st)
     | (b, None) \<Rightarrow>
         (let newClient = client st;
              baseURL = ResourceBaseURL env newClient;
              newClient = newClient\<lparr>ResourceBase := Replace_first baseURL ''/v2/'' ''/v2.1/''\<rparr>;
              ((rb, err), st') =
                 ServiceClient_Post env newClient (actionURL env newClient ident) b False
                   (Some [202]) st
          in (\<lparr>Body = None, Err = err\<rparr>, st')))"

definition Update ::
  "('c, 'w) sdk \<Rightarrow> string \<Rightarrow> UpdateOptsBuilder \<Rightarrow> ('c, 'w) sdk_state
    \<Rightarrow> Result \<times> ('c, 'w) sdk_state" where
  "Update env ident opts st =
    (case ToVolumeUpdateMap opts of
       (b, Some err) \<Rightarrow> (\<lparr>Body = None, Err = Some err\<rparr>, st)
     | (b, None) \<Rightarrow>
         (let ((rb, err), st') =
                 ServiceClient_Put env (client st) (resourceURL env (client st) ident) b True
                   (Some [200]) st
          in (\<lparr>Body = rb, Err = err\<rparr>, st')))"

text \<open>\<open>opts\<close> may be \<open>nil\<close>: then no query string is built.\<close>

definition Delete ::
  "('c, 'w) sdk \<Rightarrow> string \<Rightarrow> DeleteOptsBuilder option \<Rightarrow> ('c, 'w) sdk_state
    \<Rightarrow> Result \<times> ('c, 'w) sdk_state" where
  "Delete env ident opts st =
    (let u = resourceURL env (client st) ident in
     case opts of
       None \<Rightarrow>
         (let ((rb, err), st') = ServiceClient_Delete env (client st) u (Some [200]) st
          in (\<lparr>Body = None, Err = err\<rparr>, st'))
     | Some ob \<Rightarrow>
         (case ToVolumeDeleteQuery ob of
            (q, Some err) \<Rightarrow> (\<lparr>Body = None, Err = Some err\<rparr>, st)
          | (q, None) \<Rightarrow>
              (let ((rb, err), st') =
                      ServiceClient_Delete env (client st) (u @ q) (Some [200]) st
               in (\<lparr>Body = None, Err = err\<rparr>, st'))))"

definition Get ::
  "('c, 'w) sdk \<Rightarrow> string \<Rightarrow> ('c, 'w) sdk_state \<Rightarrow> Result \<times> ('c, 'w) sdk_state" where
  "Get env ident st =
    (let ((rb, err), st') =
            ServiceClient_Get env (client st) (resourceURL env (client st) ident) True None st
     in (\<lparr>Body = rb, Err = err\<rparr>, st'))"

section \<open>The state poller\<close>

text \<open>
  Modelled from the spec: \<open>resource.StateChangeConf\<close> and its \<open>WaitForState\<close>, which the
  NAT gateway resource calls and which are not among the source files.  Section 3 lists
  the configuration (pending-state set, target-state set, poll interval, initial delay,
  minimum timeout, overall deadline); section 4.2 gives the algorithm.  A refresh
  callable returns the triple (value, state label, error) and may change the state of
  the world.  A field the Go literal leaves out has Go's zero value.
\<close>

record ('v, 's) StateChangeConf =
  Pending :: "string list"
  Target :: "string list"
  Refresh :: "'s \<Rightarrow> ('v option \<times> string \<times> goerror option) \<times> 's"
  Timeout :: int
  Delay :: int
  MinTimeout :: int
  PollInterval :: int

text \<open>
  Modelled from the spec: the label that section 4.2 calls the terminal
  ``deleted/absent'' sentinel of a target-state set.
\<close>

definition absent_sentinel :: string where
  "absent_sentinel = ''DELETED''"

datatype 'v verdict = Stop "goerror + 'v option" | Again

text \<open>
  Modelled from the spec, section 4.2, step 2: what the poller does with one poll
  outcome.  An error stops the poll: as success when it is the not-found kind and the
  target set holds the absent sentinel, as that error otherwise.  A target label stops
  it with the value.  A label ``in the pending set (or simply not yet a target/error)''
  lets it go on: a pending label, and, when the configuration names no pending label
  at all, any label that is not a target.  A label that is ``neither pending nor
  target'' under a configuration that does name pending labels is fatal.
\<close>

definition judge ::
  "('v, 's) StateChangeConf \<Rightarrow> 'v option \<times> string \<times> goerror option \<Rightarrow> 'v verdict" where
  "judge conf outcome =
    (case outcome of (v, label, err) \<Rightarrow>
       (case err of
          Some e \<Rightarrow>
            if is404 e \<and> absent_sentinel \<in> set (Target conf) then Stop (Inr v)
            else Stop (Inl e)
        | None \<Rightarrow>
            if label \<in> set (Target conf) then Stop (Inr v)
            else if label \<in> set (Pending conf) \<or> Pending conf = [] then Again
            else Stop (Inl (UnexpectedStateError label))))"

text \<open>
  Modelled from the spec: the sleep between two polls, ``the poll interval (respecting
  the configured minimum timeout granularity)''.
\<close>

definition pause :: "('v, 's) StateChangeConf \<Rightarrow> int" where
  "pause conf = max (PollInterval conf) (MinTimeout conf)"

text \<open>
  Modelled from the spec, section 4.2, steps 2 and 3: the loop.  \<open>elapsed\<close> is the time
  slept so far (network latency left out, as in section 8), \<open>polls\<close> counts the refresh
  invocations made.  The loop invokes refresh; told to go on, it sleeps and, when
  the deadline has then passed, reports a timeout carrying the last observed label.
  With a pause of zero and a refresh that stays pending the loop never returns, which
  is the value \<open>None\<close>.
\<close>

partial_function (option) poll ::
  "('v, 's) StateChangeConf \<Rightarrow> int \<Rightarrow> nat \<Rightarrow> 's \<Rightarrow> ((goerror + 'v option) \<times> nat \<times> 's) option"
  where
  "poll conf elapsed polls s =
    (case Refresh conf s of
       (outcome, s') \<Rightarrow>
         (case judge conf outcome of
            Stop r \<Rightarrow> Some (r, Suc polls, s')
          | Again \<Rightarrow>
              if elapsed + pause conf > Timeout conf
              then Some (Inl (TimeoutError (fst (snd outcome))), Suc polls, s')
              else poll conf (elapsed + pause conf) (Suc polls) s'))"

text \<open>Step 1: wait the initial delay, then poll.\<close>

definition WaitForState ::
  "('v, 's) StateChangeConf \<Rightarrow> 's \<Rightarrow> ((goerror + 'v option) \<times> nat \<times> 's) option" where
  "WaitForState conf s = poll conf (Delay conf) 0 s"

section \<open>The NAT gateway resource\<close>

text \<open>
  Of the resource, the model holds the two refresh functions, the two
  \<open>StateChangeConf\<close> literals that the create and the delete build, the update, and
  the validator of \<open>spec\<close>.
\<close>

subsection \<open>Collaborators\<close>

text \<open>
  \<open>natgateways.NatGateway\<close> is declared outside the files at hand; the refresh functions
  read its \<open>Status\<close> only, the other fields are the record's extension part.
\<close>

record NatGateway =
  Status :: string

text \<open>\<open>natgateways.UpdateOpts\<close>, with the three fields the resource assigns.\<close>

record UpdateOpts =
  Name :: string
  Description :: string
  Spec :: string

text \<open>
  A value of type \<open>interface{}\<close>, as \<open>d.Get\<close> returns it and a validator receives it.
\<close>

datatype goval = VNil | VString string | VInt int | VBool bool

fun assert_string :: "goval \<Rightarrow> string go" where
  "assert_string (VString s) = Returns s"
| "assert_string v = Panics"

text \<open>
  \<open>schema.ResourceData\<close>, as far as the resource reads it: the identifier, the
  configured value of a field, whether a field has changed, and the timeout of an
  operation (the resource's default unless the configuration overrides it).
\<close>

record ResourceData =
  d_Id :: string
  d_Get :: "string \<Rightarrow> goval"
  d_HasChange :: "string \<Rightarrow> bool"
  d_Timeout :: "string \<Rightarrow> int"

definition TimeoutCreate :: string where
  "TimeoutCreate = ''create''"

definition TimeoutDelete :: string where
  "TimeoutDelete = ''delete''"

text \<open>The \<open>Timeouts\<close> block of \<open>resourceVpcNatGatewayV2\<close>: the defaults of both operations.\<close>

definition resourceVpcNatGatewayV2_Timeouts :: "string \<Rightarrow> int option" where
  "resourceVpcNatGatewayV2_Timeouts =
     [TimeoutCreate \<mapsto> 10 * Minute, TimeoutDelete \<mapsto> 10 * Minute]"

text \<open>
  The calls into the \<open>natgateways\<close> package and the provider configuration, none of
  them among the source files, are parameters: each API call answers from the remote
  state and moves it on.  \<open>Get(...).Extract()\<close> and \<open>Update(...).Extract()\<close> return Go's
  pair of a gateway and an error, \<open>Delete(...).ExtractErr()\<close> an error.
  \<open>resourceVpcNatGatewayV2Read\<close>, which the update ends with, is a parameter too.
\<close>

datatype api_call = CallGet string | CallDelete string | CallUpdate string UpdateOpts

record 'w cloud =
  remote :: 'w
  calls :: "api_call list"

record ('g, 'w) natapi =
  vpcV2Client :: "goerror option"
  natgateways_Get :: "string \<Rightarrow> 'w \<Rightarrow> ('g \<times> goerror option) \<times> 'w"
  natgateways_Delete :: "string \<Rightarrow> 'w \<Rightarrow> goerror option \<times> 'w"
  natgateways_Update :: "string \<Rightarrow> UpdateOpts \<Rightarrow> 'w \<Rightarrow> ('g \<times> goerror option) \<times> 'w"
  resourceVpcNatGatewayV2Read :: "ResourceData \<Rightarrow> 'w cloud \<Rightarrow> goerror option \<times> 'w cloud"

text \<open>Each call is recorded in \<open>calls\<close>, in the order the resource makes them.\<close>

definition call_Get ::
  "('g, 'w) natapi \<Rightarrow> string \<Rightarrow> 'w cloud \<Rightarrow> ('g \<times> goerror option) \<times> 'w cloud" where
  "call_Get api nId st =
    (let (r, w') = natgateways_Get api nId (remote st)
     in (r, \<lparr>remote = w', calls = calls st @ [CallGet nId]\<rparr>))"

definition call_Delete ::
  "('g, 'w) natapi \<Rightarrow> string \<Rightarrow> 'w cloud \<Rightarrow> goerror option \<times> 'w cloud" where
  "call_Delete api nId st =
    (let (r, w') = natgateways_Delete api nId (remote st)
     in (r, \<lparr>remote = w', calls = calls st @ [CallDelete nId]\<rparr>))"

definition call_Update ::
  "('g, 'w) natapi \<Rightarrow> string \<Rightarrow> UpdateOpts \<Rightarrow> 'w cloud \<Rightarrow> ('g \<times> goerror option) \<times> 'w cloud"
  where
  "call_Update api nId opts st =
    (let (r, w') = natgateways_Update api nId opts (remote st)
     in (r, \<lparr>remote = w', calls = calls st @ [CallUpdate nId opts]\<rparr>))"

subsection \<open>The refresh functions\<close>

text \<open>Logging (\<open>log.Printf\<close>) is left out throughout.\<close>

definition waitForNatGatewayActive ::
  "('a NatGateway_scheme, 'w) natapi \<Rightarrow> string \<Rightarrow> 'w cloud
    \<Rightarrow> ('a NatGateway_scheme option \<times> string \<times> goerror option) \<times> 'w cloud" where
  "waitForNatGatewayActive api nId st =
    (let ((n, err), st1) = call_Get api nId st in
     case err of
       Some e \<Rightarrow> ((None, '''', Some e), st1)
     | None \<Rightarrow>
         if Status n = ''ACTIVE'' then ((Some n, ''ACTIVE'', None), st1)
         else ((Some n, '''', None), st1))"

definition waitForNatGatewayDelete ::
  "('g, 'w) natapi \<Rightarrow> string \<Rightarrow> 'w cloud
    \<Rightarrow> ('g option \<times> string \<times> goerror option) \<times> 'w cloud" where
  "waitForNatGatewayDelete api nId st =
    (let ((n, err), st1) = call_Get api nId st in
     case err of
       Some e \<Rightarrow>
         if is404 e then ((Some n, ''DELETED'', None), st1)
         else ((Some n, ''ACTIVE'', Some e), st1)
     | None \<Rightarrow>
         (let (err2, st2) = call_Delete api nId st1 in
          case err2 of
            Some e \<Rightarrow>
              if is404 e then ((Some n, ''DELETED'', None), st2)
              else ((Some n, ''ACTIVE'', Some e), st2)
          | None \<Rightarrow> ((Some n, ''ACTIVE'', None), st2)))"

subsection \<open>The two state machine configurations\<close>

text \<open>
  The \<open>StateChangeConf\<close> literal of \<open>resourceVpcNatGatewayV2Create\<close>; \<open>nId\<close> is the
  identifier of the gateway just created.  \<open>Pending\<close> and \<open>PollInterval\<close> are not set.
\<close>

definition createStateConf ::
  "('a NatGateway_scheme, 'w) natapi \<Rightarrow> ResourceData \<Rightarrow> string
    \<Rightarrow> ('a NatGateway_scheme, 'w cloud) StateChangeConf" where
  "createStateConf api d nId =
    \<lparr>Pending = [],
     Target = [''ACTIVE''],
     Refresh = waitForNatGatewayActive api nId,
     Timeout = d_Timeout d TimeoutCreate,
     Delay = 5 * Second,
     MinTimeout = 3 * Second,
     PollInterval = 0\<rparr>"

text \<open>The \<open>StateChangeConf\<close> literal of \<open>resourceVpcNatGatewayV2Delete\<close>.\<close>

definition deleteStateConf ::
  "('g, 'w) natapi \<Rightarrow> ResourceData \<Rightarrow> ('g, 'w cloud) StateChangeConf" where
  "deleteStateConf api d =
    \<lparr>Pending = [''ACTIVE''],
     Target = [''DELETED''],
     Refresh = waitForNatGatewayDelete api (d_Id d),
     Timeout = d_Timeout d TimeoutDelete,
     Delay = 5 * Second,
     MinTimeout = 3 * Second,
     PollInterval = 0\<rparr>"

subsection \<open>The update\<close>

text \<open>
  The options start at their zero value; a field is assigned, from \<open>d.Get\<close> asserted to
  be a string, when \<open>d.HasChange\<close> reports it; the assertions run in the order name,
  description, spec.
\<close>

definition changed_string :: "ResourceData \<Rightarrow> string \<Rightarrow> string go" where
  "changed_string d k = (if d_HasChange d k then assert_string (d_Get d k) else Returns '''')"

definition updateOpts_of :: "ResourceData \<Rightarrow> UpdateOpts go" where
  "updateOpts_of d =
    (case changed_string d ''name'' of
       Panics \<Rightarrow> Panics
     | Returns nm \<Rightarrow>
         (case changed_string d ''description'' of
            Panics \<Rightarrow> Panics
          | Returns ds \<Rightarrow>
              (case changed_string d ''spec'' of
                 Panics \<Rightarrow> Panics
               | Returns sp \<Rightarrow> Returns \<lparr>Name = nm, Description = ds, Spec = sp\<rparr>)))"

definition resourceVpcNatGatewayV2Update ::
  "('g, 'w) natapi \<Rightarrow> ResourceData \<Rightarrow> 'w cloud \<Rightarrow> (goerror option \<times> 'w cloud) go" where
  "resourceVpcNatGatewayV2Update api d st =
    (case vpcV2Client api of
       Some err \<Rightarrow>
         Returns (Some (Errorf ''Error creating HuaweiCloud vpc client: %s'' [FError err]), st)
     | None \<Rightarrow>
         (case updateOpts_of d of
            Panics \<Rightarrow> Panics
          | Returns updateOpts \<Rightarrow>
              (let ((g, err), st1) = call_Update api (d_Id d) updateOpts st in
               case err of
                 Some e \<Rightarrow>
                   Returns (Some (Errorf ''Error updating Nat Gateway: %s'' [FError e]), st1)
               | None \<Rightarrow> Returns (resourceVpcNatGatewayV2Read api d st1))))"

text \<open>
  Modelled from the spec: the request body \<open>natgateways.Update\<close> builds from the
  options, which is not among the source files.  Section 4.1 has options serialised
  with ``only non-empty/explicitly-set fields included''; section 9 calls it implicit
  zero-value elision.  The body's fields, in the order of the options.
\<close>

definition omitempty :: "string \<Rightarrow> string \<Rightarrow> (string \<times> json) list" where
  "omitempty k v = (if v = '''' then [] else [(k, JString v)])"

definition UpdateOpts_fields :: "UpdateOpts \<Rightarrow> (string \<times> json) list" where
  "UpdateOpts_fields opts =
     omitempty ''name'' (Name opts) @ omitempty ''description'' (Description opts)
       @ omitempty ''spec'' (Spec opts)"

subsection \<open>The spec validator\<close>

definition Specs :: "string list" where
  "Specs = [''1'', ''2'', ''3'', ''4'']"

text \<open>The loop \<open>for i := range Specs\<close>: whether it returns early on a match.\<close>

fun matches_one :: "string \<Rightarrow> string list \<Rightarrow> bool" where
  "matches_one v [] = False"
| "matches_one v (s # ss) = (if v = s then True else matches_one v ss)"

text \<open>The result is the pair of the named results \<open>ws\<close> and \<open>errors\<close>, both \<open>nil\<close> at first.\<close>

definition resourceNatGatewayV2ValidateSpec ::
  "goval \<Rightarrow> string \<Rightarrow> (string list \<times> goerror list) go" where
  "resourceNatGatewayV2ValidateSpec v k =
    (case assert_string v of
       Panics \<Rightarrow> Panics
     | Returns val \<Rightarrow>
         if matches_one val Specs then Returns ([], [])
         else Returns ([], [] @ [Errorf ''%q must be one of %v'' [FString k, FStrings Specs]]))"

section \<open>Sample deployments\<close>

text \<open>
  Concrete collaborators, on which the theorems below are evaluated.  The sample SDK
  answers every request with one fixed status code and counts the requests it served;
  its base URL is the client's \<open>ResourceBase\<close>, or the \<open>Endpoint\<close> when that is empty.
\<close>

definition sample_client :: ServiceClient where
  "sample_client = \<lparr>Endpoint = ''https://evs.example.com/v2/p1/'', ResourceBase = ''''\<rparr>"

definition sample_base :: "ServiceClient \<Rightarrow> string" where
  "sample_base c = (if ResourceBase c \<noteq> '''' then ResourceBase c else Endpoint c)"

definition sample_sdk :: "int \<Rightarrow> (ServiceClient, nat) sdk" where
  "sample_sdk code =
    \<lparr>ResourceBaseURL = sample_base,
     createURL = (\<lambda>c. sample_base c @ ''cloudvolumes''),
     actionURL = (\<lambda>c i. sample_base c @ ''cloudvolumes/'' @ i @ ''/action''),
     resourceURL = (\<lambda>c i. sample_base c @ ''cloudvolumes/'' @ i),
     defaultOkCodes = (\<lambda>m. case m of GET \<Rightarrow> [200] | DELETE \<Rightarrow> [202, 204] | _ \<Rightarrow> [201, 202]),
     roundtrip = (\<lambda>req w. (Reply code None, Suc w))\<rparr>"

definition sample_state :: "(ServiceClient, nat) sdk_state" where
  "sample_state = \<lparr>client = sample_client, world = 0, sent = []\<rparr>"

definition missing_input :: goerror where
  "missing_input = ErrOther ''Missing input for argument''"

definition bad_create :: CreateOptsBuilder where
  "bad_create = \<lparr>ToVolumeCreateMap = (JNull, Some missing_input)\<rparr>"

definition bad_extend :: ExtendOptsBuilder where
  "bad_extend = \<lparr>ToVolumeExtendMap = (JNull, Some missing_input)\<rparr>"

definition bad_update :: UpdateOptsBuilder where
  "bad_update = \<lparr>ToVolumeUpdateMap = (JNull, Some missing_input)\<rparr>"

definition bad_delete :: DeleteOptsBuilder where
  "bad_delete = \<lparr>ToVolumeDeleteQuery = ('''', Some missing_input)\<rparr>"

definition good_create :: CreateOptsBuilder where
  "good_create = \<lparr>ToVolumeCreateMap = (JObject [(''volume'', JObject [])], None)\<rparr>"

definition good_extend :: ExtendOptsBuilder where
  "good_extend = \<lparr>ToVolumeExtendMap = (JObject [(''os-extend'', JObject [])], None)\<rparr>"

definition good_update :: UpdateOptsBuilder where
  "good_update = \<lparr>ToVolumeUpdateMap = (JObject [(''volume'', JObject [])], None)\<rparr>"

definition cascade_delete :: DeleteOptsBuilder where
  "cascade_delete = \<lparr>ToVolumeDeleteQuery = (''?cascade=true'', None)\<rparr>"

text \<open>
  A scripted NAT gateway service: the remote state counts the calls answered so far,
  and the answers to Get and Delete are functions of it.
\<close>

definition scripted_api ::
  "(nat \<Rightarrow> NatGateway \<times> goerror option) \<Rightarrow> (nat \<Rightarrow> goerror option) \<Rightarrow> (NatGateway, nat) natapi"
  where
  "scripted_api g dl =
    \<lparr>vpcV2Client = None,
     natgateways_Get = (\<lambda>i w. (g w, Suc w)),
     natgateways_Delete = (\<lambda>i w. (dl w, Suc w)),
     natgateways_Update = (\<lambda>i opts w. ((\<lparr>Status = ''ACTIVE''\<rparr>, None), Suc w)),
     resourceVpcNatGatewayV2Read = (\<lambda>d st. (None, st))\<rparr>"

definition fresh_cloud :: "nat cloud" where
  "fresh_cloud = \<lparr>remote = 0, calls = []\<rparr>"

text \<open>
  Four services: a gateway that is there at the first call and gone afterwards; one
  whose Get always fails with the given error; one that is found but whose Delete
  answers not-found; one that stays in status BUILD.
\<close>

definition vanishing_api :: "(NatGateway, nat) natapi" where
  "vanishing_api =
     scripted_api
       (\<lambda>w. if w = 0 then (\<lparr>Status = ''ACTIVE''\<rparr>, None)
            else (\<lparr>Status = ''''\<rparr>, Some (ErrDefault404 ''gw-1'')))
       (\<lambda>w. None)"

definition failing_api :: "goerror \<Rightarrow> (NatGateway, nat) natapi" where
  "failing_api e = scripted_api (\<lambda>w. (\<lparr>Status = ''''\<rparr>, Some e)) (\<lambda>w. None)"

definition racing_api :: "(NatGateway, nat) natapi" where
  "racing_api =
     scripted_api (\<lambda>w. (\<lparr>Status = ''ACTIVE''\<rparr>, None)) (\<lambda>w. Some (ErrDefault404 ''gw-1''))"

definition building_api :: "(NatGateway, nat) natapi" where
  "building_api = scripted_api (\<lambda>w. (\<lparr>Status = ''BUILD''\<rparr>, None)) (\<lambda>w. None)"

text \<open>
  Resource data of gateway \<open>gw-1\<close> whose name alone has changed, with the given
  timeout for every operation.
\<close>

definition sample_data :: "int \<Rightarrow> ResourceData" where
  "sample_data t =
    \<lparr>d_Id = ''gw-1'',
     d_Get = (\<lambda>k. if k = ''name'' then VString ''edge''
                  else if k = ''spec'' then VString ''2'' else VString ''first gateway''),
     d_HasChange = (\<lambda>k. k = ''name''),
     d_Timeout = (\<lambda>k. t)\<rparr>"

section \<open>Basic facts\<close>

lemma is404_iff: "is404 e \<longleftrightarrow> (\<exists>d. e = ErrDefault404 d)"
  by (cases e) simp_all

lemma matches_one_Specs: "matches_one s Specs \<longleftrightarrow> s \<in> {''1'', ''2'', ''3'', ''4''}"
  by (auto simp: Specs_def)

text \<open>\<open>Replace_first\<close> rewrites the leftmost occurrence, and nothing when there is none.\<close>

lemma Replace_first_at:
  "s = a @ old @ c \<Longrightarrow> (\<forall>a' c'. s = a' @ old @ c' \<longrightarrow> length a \<le> length a')
    \<Longrightarrow> Replace_first s old new = a @ new @ c"
proof (induction s arbitrary: a)
  case Nil
  then show ?case by simp
next
  case (Cons x xs)
  show ?case
  proof (cases "prefix old (x # xs)")
    case True
    then obtain c' where c': "x # xs = [] @ old @ c'" by (auto simp: prefix_def)
    from Cons.prems(2) c' have "length a \<le> length ([] :: string)" by blast
    then have "a = []" by simp
    with Cons.prems(1) have "drop (length old) (x # xs) = c" by simp
    moreover have "Replace_first (x # xs) old new = new @ drop (length old) (x # xs)"
      using True by simp
    ultimately show ?thesis using \<open>a = []\<close> by simp
  next
    case False
    with Cons.prems(1) have "a \<noteq> []" by (auto simp: prefix_def)
    then obtain a2 where a: "a = x # a2" using Cons.prems(1) by (cases a) auto
    with Cons.prems(1) have xs: "xs = a2 @ old @ c" by simp
    have "\<forall>a' c'. xs = a' @ old @ c' \<longrightarrow> length a2 \<le> length a'"
    proof (intro allI impI)
      fix a' c' assume "xs = a' @ old @ c'"
      then have "x # xs = (x # a') @ old @ c'" by simp
      with Cons.prems(2) have "length a \<le> length (x # a')" by blast
      with a show "length a2 \<le> length a'" by simp
    qed
    from Cons.IH[OF xs this] False a show ?thesis by simp
  qed
qed

lemma Replace_first_absent:
  "\<not> (\<exists>a c. s = a @ old @ c) \<Longrightarrow> Replace_first s old new = s"
proof (induction s)
  case Nil
  then show ?case by auto
next
  case (Cons x xs)
  have np: "\<not> prefix old (x # xs)"
  proof
    assume "prefix old (x # xs)"
    then obtain c where "x # xs = [] @ old @ c" by (auto simp: prefix_def)
    with Cons.prems show False by blast
  qed
  have "\<not> (\<exists>a c. xs = a @ old @ c)"
  proof
    assume "\<exists>a c. xs = a @ old @ c"
    then obtain a c where "xs = a @ old @ c" by blast
    then have "x # xs = (x # a) @ old @ c" by simp
    with Cons.prems show False by blast
  qed
  with Cons.IH np show ?case by simp
qed

text \<open>One call of \<open>Request\<close> sends one request, and leaves the caller's client alone.\<close>

lemma Request_sent:
  "sent (snd (Request env c m u b want ok st)) =
     sent st @ [\<lparr>req_via = c, req_method = m, req_url = u, req_body = b, req_ok = ok\<rparr>]"
  by (simp add: Request_def Let_def split: prod.splits reply.splits)

lemma Request_client: "client (snd (Request env c m u b want ok st)) = client st"
  by (simp add: Request_def Let_def split: prod.splits reply.splits)

lemma Request_Err:
  "snd (fst (Request env c m u b want (Some cs) st)) = None \<longleftrightarrow>
     (\<exists>code rb. fst (roundtrip env \<lparr>req_via = c, req_method = m, req_url = u, req_body = b,
          req_ok = Some cs\<rparr> (world st)) = Reply code rb \<and> code \<in> set cs)"
  by (auto simp: Request_def Let_def split: prod.splits reply.splits)

lemmas sample_defs =
  sample_client_def sample_base_def sample_sdk_def sample_state_def missing_input_def
  bad_create_def bad_extend_def bad_update_def bad_delete_def good_create_def
  good_extend_def good_update_def cascade_delete_def

lemmas request_defs =
  Create_def ExtendSize_def Update_def Delete_def Get_def ServiceClient_Get_def
  ServiceClient_Post_def ServiceClient_Put_def ServiceClient_Delete_def Request_def

section \<open>The cloud volume requests: claims\<close>

text \<open>
  Claim C6.  The spec has the volume \<open>Delete\<close> accept the status codes 200 and 202.  The
  request options of \<open>Delete\<close> list 200 alone, so a 202 answer is an error: on the sample
  SDK answering 202, the result carries the error for an unexpected response code.
\<close>

theorem Delete_202_is_an_error:
  "Err (fst (Delete (sample_sdk 202) ''vol-1'' None sample_state))
     = Some (ErrUnexpectedResponseCode 202)"
  by (simp add: request_defs sample_defs)

text \<open>
  Claim C6, as amended.  When the query string builds (or no options are given),
  \<open>Delete\<close> issues exactly one request, a DELETE on the resource URL followed by the
  query string, accepting status 200 only: the result is free of an error exactly when
  the remote side answers that request with status 200.
\<close>

theorem Delete_accepts_only_200:
  assumes "opts = None \<and> q = [] \<or> (\<exists>ob. opts = Some ob \<and> ToVolumeDeleteQuery ob = (q, None))"
  shows "\<exists>req. req = \<lparr>req_via = client st, req_method = DELETE,
              req_url = resourceURL env (client st) ident @ q, req_body = None,
              req_ok = Some [200]\<rparr>
          \<and> sent (snd (Delete env ident opts st)) = sent st @ [req]
          \<and> (Err (fst (Delete env ident opts st)) = None \<longleftrightarrow>
               (\<exists>rb. fst (roundtrip env req (world st)) = Reply 200 rb))"
proof -
  let ?R = "Request env (client st) DELETE (resourceURL env (client st) ident @ q) None False
              (Some [200]) st"
  from assms have "Delete env ident opts st = (\<lparr>Body = None, Err = snd (fst ?R)\<rparr>, snd ?R)"
    by (auto simp: Delete_def ServiceClient_Delete_def Let_def case_prod_beta)
  then show ?thesis
    by (simp add: Request_sent Request_Err)
qed

theorem Delete_accepts_only_200_witness:
  "ToVolumeDeleteQuery cascade_delete = (''?cascade=true'', None)
   \<and> sent (snd (Delete (sample_sdk 200) ''vol-1'' (Some cascade_delete) sample_state))
       = [\<lparr>req_via = sample_client, req_method = DELETE,
           req_url = ''https://evs.example.com/v2/p1/cloudvolumes/vol-1?cascade=true'',
           req_body = None, req_ok = Some [200]\<rparr>]
   \<and> Err (fst (Delete (sample_sdk 200) ''vol-1'' (Some cascade_delete) sample_state)) = None
   \<and> Err (fst (Delete (sample_sdk 204) ''vol-1'' (Some cascade_delete) sample_state)) \<noteq> None"
  using Delete_accepts_only_200 [of "Some cascade_delete" "''?cascade=true''" sample_state
      "sample_sdk 200" "''vol-1''"]
    Delete_accepts_only_200 [of "Some cascade_delete" "''?cascade=true''" sample_state
      "sample_sdk 204" "''vol-1''"]
  by (simp add: sample_defs)

text \<open>
  Claim C9.  For Create, ExtendSize, Update and Delete: when the builder of the request
  body or of the query string returns an error, the result carries exactly that error
  and the state is the one before the call, so no request was sent and the remote side
  was not touched.
\<close>

theorem builder_error_sends_nothing:
  "(ToVolumeCreateMap co = (b, Some e) \<longrightarrow>
      Create env co st = (\<lparr>Body = None, Err = Some e\<rparr>, st)) \<and>
   (ToVolumeExtendMap eo = (b, Some e) \<longrightarrow>
      ExtendSize env ident eo st = (\<lparr>Body = None, Err = Some e\<rparr>, st)) \<and>
   (ToVolumeUpdateMap uo = (b, Some e) \<longrightarrow>
      Update env ident uo st = (\<lparr>Body = None, Err = Some e\<rparr>, st)) \<and>
   (ToVolumeDeleteQuery dob = (q, Some e) \<longrightarrow>
      Delete env ident (Some dob) st = (\<lparr>Body = None, Err = Some e\<rparr>, st))"
  by (simp add: Create_def ExtendSize_def Update_def Delete_def)

theorem builder_error_sends_nothing_witness:
  "ToVolumeCreateMap bad_create = (JNull, Some missing_input)
   \<and> ToVolumeExtendMap bad_extend = (JNull, Some missing_input)
   \<and> ToVolumeUpdateMap bad_update = (JNull, Some missing_input)
   \<and> ToVolumeDeleteQuery bad_delete = ('''', Some missing_input)
   \<and> Create (sample_sdk 200) bad_create sample_state
       = (\<lparr>Body = None, Err = Some missing_input\<rparr>, sample_state)
   \<and> ExtendSize (sample_sdk 200) ''vol-1'' bad_extend sample_state
       = (\<lparr>Body = None, Err = Some missing_input\<rparr>, sample_state)
   \<and> Update (sample_sdk 200) ''vol-1'' bad_update sample_state
       = (\<lparr>Body = None, Err = Some missing_input\<rparr>, sample_state)
   \<and> Delete (sample_sdk 200) ''vol-1'' (Some bad_delete) sample_state
       = (\<lparr>Body = None, Err = Some missing_input\<rparr>, sample_state)
   \<and> sent sample_state = []"
  using builder_error_sends_nothing [of bad_create JNull missing_input "sample_sdk 200"
      sample_state bad_extend "''vol-1''" bad_update bad_delete "''''"]
  by (simp add: bad_create_def bad_extend_def bad_update_def bad_delete_def sample_state_def)

lemma Create_unfold:
  "ToVolumeCreateMap co = (b, None) \<Longrightarrow>
   Create env co st =
     (let copy = (client st)\<lparr>ResourceBase :=
                   Replace_first (ResourceBaseURL env (client st)) ''/v2/'' ''/v2.1/''\<rparr>;
          R = Request env copy POST (createURL env copy) (Some b) True None st
      in (\<lparr>Body = fst (fst R), Err = snd (fst R)\<rparr>, snd R))"
  by (simp add: Create_def ServiceClient_Post_def Let_def case_prod_beta)

lemma ExtendSize_unfold:
  "ToVolumeExtendMap eo = (b, None) \<Longrightarrow>
   ExtendSize env ident eo st =
     (let copy = (client st)\<lparr>ResourceBase :=
                   Replace_first (ResourceBaseURL env (client st)) ''/v2/'' ''/v2.1/''\<rparr>;
          R = Request env copy POST (actionURL env copy ident) (Some b) False (Some [202]) st
      in (\<lparr>Body = None, Err = snd (fst R)\<rparr>, snd R))"
  by (simp add: ExtendSize_def ServiceClient_Post_def Let_def case_prod_beta)

lemma Create_client: "client (snd (Create env co st)) = client st"
proof (cases "ToVolumeCreateMap co")
  case (Pair b err)
  then show ?thesis
    by (cases err) (simp_all add: Create_unfold Let_def Request_client, simp add: Create_def)
qed

lemma ExtendSize_client: "client (snd (ExtendSize env ident eo st)) = client st"
proof (cases "ToVolumeExtendMap eo")
  case (Pair b err)
  then show ?thesis
    by (cases err) (simp_all add: ExtendSize_unfold Let_def Request_client, simp add: ExtendSize_def)
qed

text \<open>
  Claim C7.  Create and ExtendSize work on a copy of the client.  After either call the
  caller's client is the one before the call, in every field.  When the body builds,
  the one request sent is a POST issued on the copy, to the URL computed from the copy,
  and the copy differs from the caller's client in \<open>ResourceBase\<close> alone, which is the
  base URL with its leftmost \<open>/v2/\<close> rewritten to \<open>/v2.1/\<close> (and the base URL itself when
  it holds no \<open>/v2/\<close>).
\<close>

theorem Create_ExtendSize_use_a_copy:
  "(let copy = (client st)\<lparr>ResourceBase :=
                  Replace_first (ResourceBaseURL env (client st)) ''/v2/'' ''/v2.1/''\<rparr>
    in client (snd (Create env co st)) = client st
     \<and> client (snd (ExtendSize env ident eo st)) = client st
     \<and> (ToVolumeCreateMap co = (b, None) \<longrightarrow>
          sent (snd (Create env co st)) =
            sent st @ [\<lparr>req_via = copy, req_method = POST, req_url = createURL env copy,
                        req_body = Some b, req_ok = None\<rparr>])
     \<and> (ToVolumeExtendMap eo = (b', None) \<longrightarrow>
          sent (snd (ExtendSize env ident eo st)) =
            sent st @ [\<lparr>req_via = copy, req_method = POST, req_url = actionURL env copy ident,
                        req_body = Some b', req_ok = Some [202]\<rparr>])
     \<and> (\<forall>a c. ResourceBaseURL env (client st) = a @ ''/v2/'' @ c
              \<and> (\<forall>a' c'. ResourceBaseURL env (client st) = a' @ ''/v2/'' @ c'
                    \<longrightarrow> length a \<le> length a')
            \<longrightarrow> ResourceBase copy = a @ ''/v2.1/'' @ c)
     \<and> ((\<nexists>a c. ResourceBaseURL env (client st) = a @ ''/v2/'' @ c)
            \<longrightarrow> ResourceBase copy = ResourceBaseURL env (client st)))"
  unfolding Let_def
proof (intro conjI allI impI)
  show "client (snd (Create env co st)) = client st" by (rule Create_client)
  show "client (snd (ExtendSize env ident eo st)) = client st" by (rule ExtendSize_client)
next
  assume "ToVolumeCreateMap co = (b, None)"
  then show "sent (snd (Create env co st)) =
      sent st @ [\<lparr>req_via = (client st)\<lparr>ResourceBase :=
                  Replace_first (ResourceBaseURL env (client st)) ''/v2/'' ''/v2.1/''\<rparr>,
        req_method = POST,
        req_url = createURL env ((client st)\<lparr>ResourceBase :=
                  Replace_first (ResourceBaseURL env (client st)) ''/v2/'' ''/v2.1/''\<rparr>),
        req_body = Some b, req_ok = None\<rparr>]"
    by (simp add: Create_unfold Let_def Request_sent)
next
  assume "ToVolumeExtendMap eo = (b', None)"
  then show "sent (snd (ExtendSize env ident eo st)) =
      sent st @ [\<lparr>req_via = (client st)\<lparr>ResourceBase :=
                  Replace_first (ResourceBaseURL env (client st)) ''/v2/'' ''/v2.1/''\<rparr>,
        req_method = POST,
        req_url = actionURL env ((client st)\<lparr>ResourceBase :=
                  Replace_first (ResourceBaseURL env (client st)) ''/v2/'' ''/v2.1/''\<rparr>) ident,
        req_body = Some b', req_ok = Some [202]\<rparr>]"
    by (simp add: ExtendSize_unfold Let_def Request_sent)
next
  fix a c
  assume "ResourceBaseURL env (client st) = a @ ''/v2/'' @ c
    \<and> (\<forall>a' c'. ResourceBaseURL env (client st) = a' @ ''/v2/'' @ c' \<longrightarrow> length a \<le> length a')"
  then show "ResourceBase ((client st)\<lparr>ResourceBase :=
       Replace_first (ResourceBaseURL env (client st)) ''/v2/'' ''/v2.1/''\<rparr>) = a @ ''/v2.1/'' @ c"
    using Replace_first_at [of "ResourceBaseURL env (client st)" a "''/v2/''" c "''/v2.1/''"]
    by simp
next
  assume "\<nexists>a c. ResourceBaseURL env (client st) = a @ ''/v2/'' @ c"
  then show "ResourceBase ((client st)\<lparr>ResourceBase :=
       Replace_first (ResourceBaseURL env (client st)) ''/v2/'' ''/v2.1/''\<rparr>)
      = ResourceBaseURL env (client st)"
    using Replace_first_absent [of "ResourceBaseURL env (client st)" "''/v2/''" "''/v2.1/''"]
    by simp
qed

theorem Create_ExtendSize_use_a_copy_witness:
  "ToVolumeCreateMap good_create = (JObject [(''volume'', JObject [])], None)
   \<and> ToVolumeExtendMap good_extend = (JObject [(''os-extend'', JObject [])], None)
   \<and> client (snd (Create (sample_sdk 200) good_create sample_state)) = sample_client
   \<and> client (snd (ExtendSize (sample_sdk 202) ''vol-1'' good_extend sample_state)) = sample_client
   \<and> sent (snd (Create (sample_sdk 200) good_create sample_state)) =
       [\<lparr>req_via = sample_client\<lparr>ResourceBase := ''https://evs.example.com/v2.1/p1/''\<rparr>,
         req_method = POST, req_url = ''https://evs.example.com/v2.1/p1/cloudvolumes'',
         req_body = Some (JObject [(''volume'', JObject [])]), req_ok = None\<rparr>]
   \<and> sent (snd (ExtendSize (sample_sdk 202) ''vol-1'' good_extend sample_state)) =
       [\<lparr>req_via = sample_client\<lparr>ResourceBase := ''https://evs.example.com/v2.1/p1/''\<rparr>,
         req_method = POST,
         req_url = ''https://evs.example.com/v2.1/p1/cloudvolumes/vol-1/action'',
         req_body = Some (JObject [(''os-extend'', JObject [])]), req_ok = Some [202]\<rparr>]"
  using Create_ExtendSize_use_a_copy [where st = sample_state and env = "sample_sdk 200"
      and co = good_create and ident = "''vol-1''" and eo = good_extend
      and b = "JObject [(''volume'', JObject [])]"
      and b' = "JObject [(''os-extend'', JObject [])]"]
    Create_ExtendSize_use_a_copy [where st = sample_state and env = "sample_sdk 202"
      and co = good_create and ident = "''vol-1''" and eo = good_extend
      and b = "JObject [(''volume'', JObject [])]"
      and b' = "JObject [(''os-extend'', JObject [])]"]
  by (simp add: sample_defs Let_def)

section \<open>The NAT gateway resource: claims\<close>

text \<open>
  Claim C10.  On a string the validator returns: it never gives a warning; it gives no
  error exactly when the string is one of 1, 2, 3, 4; and otherwise it gives exactly
  one error.
\<close>

theorem validateSpec_accepts_1_to_4:
  "\<exists>ws errors. resourceNatGatewayV2ValidateSpec (VString s) k = Returns (ws, errors)
      \<and> ws = []
      \<and> (errors = [] \<longleftrightarrow> s \<in> {''1'', ''2'', ''3'', ''4''})
      \<and> length errors = (if s \<in> {''1'', ''2'', ''3'', ''4''} then 0 else 1)"
  by (simp add: resourceNatGatewayV2ValidateSpec_def matches_one_Specs)

theorem validateSpec_accepts_1_to_4_witness:
  "resourceNatGatewayV2ValidateSpec (VString ''3'') ''spec'' = Returns ([], [])
   \<and> resourceNatGatewayV2ValidateSpec (VString ''5'') ''spec'' =
       Returns ([], [Errorf ''%q must be one of %v''
                       [FString ''spec'', FStrings [''1'', ''2'', ''3'', ''4'']]])
   \<and> resourceNatGatewayV2ValidateSpec (VString '''') ''spec'' =
       Returns ([], [Errorf ''%q must be one of %v''
                       [FString ''spec'', FStrings [''1'', ''2'', ''3'', ''4'']]])"
  using validateSpec_accepts_1_to_4 [of "''3''" "''spec''"]
    validateSpec_accepts_1_to_4 [of "''5''" "''spec''"]
  by (simp add: resourceNatGatewayV2ValidateSpec_def Specs_def)

text \<open>
  Claim C4.  The spec has every configuration built by the resource keep its deadline
  strictly above the initial delay of 5 seconds.  The deadline is whatever \<open>d.Timeout\<close>
  returns, and 10 minutes is only its default: with a timeout of one second configured
  for the operation, the create-wait configuration has its deadline below its delay.
\<close>

theorem short_timeout_breaks_deadline_invariant:
  "\<not> Delay (createStateConf building_api (sample_data (1 * Second)) ''gw-1'')
      < Timeout (createStateConf building_api (sample_data (1 * Second)) ''gw-1'')"
  by (simp add: createStateConf_def sample_data_def Second_def)

text \<open>
  Claim C4, as amended.  In the create-wait and the delete-wait configuration the
  target set and the pending set are disjoint, the initial delay is 5 seconds and the
  deadline is the timeout \<open>d.Timeout\<close> returns for the operation.  So the deadline is
  strictly greater than the initial delay exactly when that timeout exceeds 5 seconds;
  it does when the timeout is the resource's default, 10 minutes for both operations.
\<close>

theorem stateConf_disjoint_and_deadline:
  "set (Target (createStateConf api d nId)) \<inter> set (Pending (createStateConf api d nId)) = {}
   \<and> set (Target (deleteStateConf api d)) \<inter> set (Pending (deleteStateConf api d)) = {}
   \<and> Delay (createStateConf api d nId) = 5 * Second
   \<and> Delay (deleteStateConf api d) = 5 * Second
   \<and> Timeout (createStateConf api d nId) = d_Timeout d TimeoutCreate
   \<and> Timeout (deleteStateConf api d) = d_Timeout d TimeoutDelete
   \<and> (Delay (createStateConf api d nId) < Timeout (createStateConf api d nId)
        \<longleftrightarrow> 5 * Second < d_Timeout d TimeoutCreate)
   \<and> (Delay (deleteStateConf api d) < Timeout (deleteStateConf api d)
        \<longleftrightarrow> 5 * Second < d_Timeout d TimeoutDelete)
   \<and> resourceVpcNatGatewayV2_Timeouts TimeoutCreate = Some (10 * Minute)
   \<and> resourceVpcNatGatewayV2_Timeouts TimeoutDelete = Some (10 * Minute)
   \<and> (Some (d_Timeout d TimeoutCreate) = resourceVpcNatGatewayV2_Timeouts TimeoutCreate
        \<longrightarrow> Delay (createStateConf api d nId) < Timeout (createStateConf api d nId))
   \<and> (Some (d_Timeout d TimeoutDelete) = resourceVpcNatGatewayV2_Timeouts TimeoutDelete
        \<longrightarrow> Delay (deleteStateConf api d) < Timeout (deleteStateConf api d))"
  by (auto simp: createStateConf_def deleteStateConf_def resourceVpcNatGatewayV2_Timeouts_def
      TimeoutCreate_def TimeoutDelete_def Second_def Minute_def)

theorem stateConf_disjoint_and_deadline_witness:
  "Some (d_Timeout (sample_data (10 * Minute)) TimeoutCreate)
     = resourceVpcNatGatewayV2_Timeouts TimeoutCreate
   \<and> Some (d_Timeout (sample_data (10 * Minute)) TimeoutDelete)
     = resourceVpcNatGatewayV2_Timeouts TimeoutDelete
   \<and> Delay (createStateConf building_api (sample_data (10 * Minute)) ''gw-1'')
      < Timeout (createStateConf building_api (sample_data (10 * Minute)) ''gw-1'')
   \<and> Delay (deleteStateConf building_api (sample_data (10 * Minute)))
      < Timeout (deleteStateConf building_api (sample_data (10 * Minute)))"
  using stateConf_disjoint_and_deadline
    [where api = building_api and d = "sample_data (10 * Minute)" and nId = "''gw-1''"]
  by (simp add: sample_data_def resourceVpcNatGatewayV2_Timeouts_def TimeoutCreate_def
      TimeoutDelete_def)

lemma omitempty_keys: "k \<in> fst ` set (omitempty k' v) \<longleftrightarrow> k = k' \<and> v \<noteq> ''''"
  by (auto simp: omitempty_def)

lemma UpdateOpts_fields_keys:
  "k \<in> fst ` set (UpdateOpts_fields opts) \<longleftrightarrow>
     k = ''name'' \<and> Name opts \<noteq> '''' \<or> k = ''description'' \<and> Description opts \<noteq> ''''
     \<or> k = ''spec'' \<and> Spec opts \<noteq> ''''"
  by (auto simp: UpdateOpts_fields_def image_Un omitempty_keys)

text \<open>
  Claim C8.  With the three fields holding strings (the schema declares them
  \<open>TypeString\<close>), the update builds its options without a panic: a field is assigned
  the configured value exactly when \<open>d.HasChange\<close> reports it, and is left at the zero
  value otherwise.  Every field in the request body built from the options is a changed
  field, and a field without a change is not in the body.  Once the client is there,
  the resource makes one \<open>natgateways.Update\<close> call, with these options, on the
  gateway's identifier, and returns its error wrapped, or goes on to the read.  The
  volume \<open>Update\<close> sends the built body in one PUT on the resource URL, accepting 200.
\<close>

theorem update_sends_only_changed_fields:
  assumes "d_Get d ''name'' = VString nm" and "d_Get d ''description'' = VString ds"
    and "d_Get d ''spec'' = VString sp"
  shows "\<exists>opts. updateOpts_of d = Returns opts
     \<and> Name opts = (if d_HasChange d ''name'' then nm else '''')
     \<and> Description opts = (if d_HasChange d ''description'' then ds else '''')
     \<and> Spec opts = (if d_HasChange d ''spec'' then sp else '''')
     \<and> (\<forall>k. k \<in> fst ` set (UpdateOpts_fields opts) \<longrightarrow> d_HasChange d k)
     \<and> (\<forall>k. \<not> d_HasChange d k \<longrightarrow> k \<notin> fst ` set (UpdateOpts_fields opts))
     \<and> (vpcV2Client api = None \<longrightarrow>
          (\<exists>g err w'. natgateways_Update api (d_Id d) opts (remote st) = ((g, err), w')
             \<and> resourceVpcNatGatewayV2Update api d st =
                 Returns (case err of
                    Some e \<Rightarrow> (Some (Errorf ''Error updating Nat Gateway: %s'' [FError e]),
                               \<lparr>remote = w', calls = calls st @ [CallUpdate (d_Id d) opts]\<rparr>)
                  | None \<Rightarrow> resourceVpcNatGatewayV2Read api d
                               \<lparr>remote = w', calls = calls st @ [CallUpdate (d_Id d) opts]\<rparr>)))
     \<and> (ToVolumeUpdateMap uo = (b, None) \<longrightarrow>
          sent (snd (Update env ident uo vst)) =
            sent vst @ [\<lparr>req_via = client vst, req_method = PUT,
                        req_url = resourceURL env (client vst) ident, req_body = Some b,
                        req_ok = Some [200]\<rparr>])"
proof -
  let ?opts = "\<lparr>Name = (if d_HasChange d ''name'' then nm else ''''),
                Description = (if d_HasChange d ''description'' then ds else ''''),
                Spec = (if d_HasChange d ''spec'' then sp else '''')\<rparr>"
  have opts: "updateOpts_of d = Returns ?opts"
    using assms by (simp add: updateOpts_of_def changed_string_def)
  have keys: "\<forall>k. k \<in> fst ` set (UpdateOpts_fields ?opts) \<longrightarrow> d_HasChange d k"
    by (auto simp: UpdateOpts_fields_keys split: if_splits)
  have upd: "vpcV2Client api = None \<longrightarrow>
          (\<exists>g err w'. natgateways_Update api (d_Id d) ?opts (remote st) = ((g, err), w')
             \<and> resourceVpcNatGatewayV2Update api d st =
                 Returns (case err of
                    Some e \<Rightarrow> (Some (Errorf ''Error updating Nat Gateway: %s'' [FError e]),
                               \<lparr>remote = w', calls = calls st @ [CallUpdate (d_Id d) ?opts]\<rparr>)
                  | None \<Rightarrow> resourceVpcNatGatewayV2Read api d
                               \<lparr>remote = w', calls = calls st @ [CallUpdate (d_Id d) ?opts]\<rparr>))"
  proof
    assume c: "vpcV2Client api = None"
    obtain g err w' where u: "natgateways_Update api (d_Id d) ?opts (remote st) = ((g, err), w')"
      by (metis surj_pair)
    with c opts show "\<exists>g err w'. natgateways_Update api (d_Id d) ?opts (remote st) = ((g, err), w')
             \<and> resourceVpcNatGatewayV2Update api d st =
                 Returns (case err of
                    Some e \<Rightarrow> (Some (Errorf ''Error updating Nat Gateway: %s'' [FError e]),
                               \<lparr>remote = w', calls = calls st @ [CallUpdate (d_Id d) ?opts]\<rparr>)
                  | None \<Rightarrow> resourceVpcNatGatewayV2Read api d
                               \<lparr>remote = w', calls = calls st @ [CallUpdate (d_Id d) ?opts]\<rparr>)"
      by (cases err) (simp_all add: resourceVpcNatGatewayV2Update_def call_Update_def)
  qed
  have put: "ToVolumeUpdateMap uo = (b, None) \<longrightarrow>
          sent (snd (Update env ident uo vst)) =
            sent vst @ [\<lparr>req_via = client vst, req_method = PUT,
                        req_url = resourceURL env (client vst) ident, req_body = Some b,
                        req_ok = Some [200]\<rparr>]"
    by (simp add: Update_def ServiceClient_Put_def Let_def case_prod_beta Request_sent)
  have unchanged: "\<forall>k. \<not> d_HasChange d k \<longrightarrow> k \<notin> fst ` set (UpdateOpts_fields ?opts)"
    using keys by blast
  show ?thesis
  proof (intro exI[of _ ?opts] conjI)
    show "updateOpts_of d = Returns ?opts" by (rule opts)
    show "Name ?opts = (if d_HasChange d ''name'' then nm else '''')" by simp
    show "Description ?opts = (if d_HasChange d ''description'' then ds else '''')" by simp
    show "Spec ?opts = (if d_HasChange d ''spec'' then sp else '''')" by simp
  qed (rule keys, rule unchanged, rule upd, rule put)
qed

theorem update_sends_only_changed_fields_witness:
  "d_Get (sample_data 0) ''name'' = VString ''edge''
   \<and> d_Get (sample_data 0) ''description'' = VString ''first gateway''
   \<and> d_Get (sample_data 0) ''spec'' = VString ''2''
   \<and> vpcV2Client building_api = None
   \<and> ToVolumeUpdateMap good_update = (JObject [(''volume'', JObject [])], None)
   \<and> updateOpts_of (sample_data 0) = Returns \<lparr>Name = ''edge'', Description = '''', Spec = ''''\<rparr>
   \<and> UpdateOpts_fields \<lparr>Name = ''edge'', Description = '''', Spec = ''''\<rparr>
       = [(''name'', JString ''edge'')]
   \<and> resourceVpcNatGatewayV2Update building_api (sample_data 0) fresh_cloud =
       Returns (None, \<lparr>remote = 1,
          calls = [CallUpdate ''gw-1'' \<lparr>Name = ''edge'', Description = '''', Spec = ''''\<rparr>]\<rparr>)
   \<and> sent (snd (Update (sample_sdk 200) ''vol-1'' good_update sample_state)) =
       [\<lparr>req_via = sample_client, req_method = PUT,
         req_url = ''https://evs.example.com/v2/p1/cloudvolumes/vol-1'',
         req_body = Some (JObject [(''volume'', JObject [])]), req_ok = Some [200]\<rparr>]"
  using update_sends_only_changed_fields
    [where d = "sample_data 0" and nm = "''edge''" and ds = "''first gateway''"
      and sp = "''2''" and api = building_api and st = fresh_cloud and uo = good_update
      and b = "JObject [(''volume'', JObject [])]" and env = "sample_sdk 200"
      and ident = "''vol-1''" and vst = sample_state]
  by (simp add: sample_data_def sample_defs building_api_def scripted_api_def fresh_cloud_def
      updateOpts_of_def changed_string_def UpdateOpts_fields_def omitempty_def
      resourceVpcNatGatewayV2Update_def call_Update_def)

section \<open>Polling the NAT gateway: claims\<close>

subsection \<open>The poller, one step at a time\<close>

lemma poll_Stop:
  "Refresh conf s = (outcome, s') \<Longrightarrow> judge conf outcome = Stop r
    \<Longrightarrow> poll conf elapsed polls s = Some (r, Suc polls, s')"
  by (subst poll.simps) simp

lemma poll_Again:
  "Refresh conf s = (outcome, s') \<Longrightarrow> judge conf outcome = Again
    \<Longrightarrow> \<not> elapsed + pause conf > Timeout conf
    \<Longrightarrow> poll conf elapsed polls s = poll conf (elapsed + pause conf) (Suc polls) s'"
  by (subst poll.simps) simp

lemma poll_Timeout:
  "Refresh conf s = (outcome, s') \<Longrightarrow> judge conf outcome = Again
    \<Longrightarrow> elapsed + pause conf > Timeout conf
    \<Longrightarrow> poll conf elapsed polls s
          = Some (Inl (TimeoutError (fst (snd outcome))), Suc polls, s')"
  by (subst poll.simps) simp

lemma judge_error:
  "judge conf (v, label, Some e) =
     (if is404 e \<and> absent_sentinel \<in> set (Target conf) then Stop (Inr v) else Stop (Inl e))"
  by (simp add: judge_def)

lemma judge_label:
  "judge conf (v, label, None) =
     (if label \<in> set (Target conf) then Stop (Inr v)
      else if label \<in> set (Pending conf) \<or> Pending conf = [] then Again
      else Stop (Inl (UnexpectedStateError label)))"
  by (simp add: judge_def)

lemma judge_Again:
  "judge conf outcome = Again
    \<Longrightarrow> snd (snd outcome) = None
      \<and> (fst (snd outcome) \<in> set (Pending conf) \<or> Pending conf = [])"
  by (cases outcome) (auto simp: judge_def split: option.splits if_splits)

subsection \<open>The refresh functions, by the answers of the service\<close>

lemma waitForNatGatewayDelete_cases:
  assumes "natgateways_Get api nId (remote st) = ((n, gerr), w1)"
    and "natgateways_Delete api nId w1 = (derr, w2)"
  shows "waitForNatGatewayDelete api nId st =
    (case gerr of
       Some e \<Rightarrow> ((Some n, if is404 e then ''DELETED'' else ''ACTIVE'',
                   if is404 e then None else Some e),
                  \<lparr>remote = w1, calls = calls st @ [CallGet nId]\<rparr>)
     | None \<Rightarrow>
         (case derr of
            Some e \<Rightarrow> ((Some n, if is404 e then ''DELETED'' else ''ACTIVE'',
                        if is404 e then None else Some e),
                       \<lparr>remote = w2, calls = calls st @ [CallGet nId, CallDelete nId]\<rparr>)
          | None \<Rightarrow> ((Some n, ''ACTIVE'', None),
                     \<lparr>remote = w2, calls = calls st @ [CallGet nId, CallDelete nId]\<rparr>)))"
  using assms
  by (simp add: waitForNatGatewayDelete_def call_Get_def call_Delete_def
      split: option.splits)

lemma waitForNatGatewayActive_cases:
  assumes "natgateways_Get api nId (remote st) = ((n, gerr), w1)"
  shows "waitForNatGatewayActive api nId st =
    (case gerr of
       Some e \<Rightarrow> ((None, '''', Some e), \<lparr>remote = w1, calls = calls st @ [CallGet nId]\<rparr>)
     | None \<Rightarrow> ((Some n, if Status n = ''ACTIVE'' then ''ACTIVE'' else '''', None),
                \<lparr>remote = w1, calls = calls st @ [CallGet nId]\<rparr>))"
  using assms
  by (simp add: waitForNatGatewayActive_def call_Get_def split: option.splits)

lemma waitForNatGatewayDelete_calls:
  "calls (snd (waitForNatGatewayDelete api nId st)) =
      calls st @ CallGet nId #
        (if snd (fst (natgateways_Get api nId (remote st))) = None then [CallDelete nId] else [])"
  by (simp add: waitForNatGatewayDelete_def call_Get_def call_Delete_def Let_def
      case_prod_beta split: option.splits)

lemma waitForNatGatewayDelete_remote:
  "remote (snd (waitForNatGatewayDelete api nId st)) =
     (if snd (fst (natgateways_Get api nId (remote st))) = None
      then snd (natgateways_Delete api nId (snd (natgateways_Get api nId (remote st))))
      else snd (natgateways_Get api nId (remote st)))"
  by (simp add: waitForNatGatewayDelete_def call_Get_def call_Delete_def Let_def
      case_prod_beta split: option.splits)

lemma waitForNatGatewayDelete_present:
  "snd (fst (natgateways_Get api nId (remote st))) = None \<Longrightarrow>
   fst (waitForNatGatewayDelete api nId st) =
     (Some (fst (fst (natgateways_Get api nId (remote st)))),
      (case fst (natgateways_Delete api nId (snd (natgateways_Get api nId (remote st)))) of
         Some e \<Rightarrow> if is404 e then ''DELETED'' else ''ACTIVE''
       | None \<Rightarrow> ''ACTIVE''),
      (case fst (natgateways_Delete api nId (snd (natgateways_Get api nId (remote st)))) of
         Some e \<Rightarrow> if is404 e then None else Some e
       | None \<Rightarrow> None))"
  by (simp add: waitForNatGatewayDelete_def call_Get_def call_Delete_def Let_def
      case_prod_beta split: option.splits)

lemma waitForNatGatewayDelete_absent:
  "snd (fst (natgateways_Get api nId (remote st))) = Some e \<Longrightarrow>
   fst (waitForNatGatewayDelete api nId st) =
     (Some (fst (fst (natgateways_Get api nId (remote st)))),
      if is404 e then ''DELETED'' else ''ACTIVE'', if is404 e then None else Some e)"
  by (simp add: waitForNatGatewayDelete_def call_Get_def call_Delete_def Let_def
      case_prod_beta split: option.splits)

lemma waitForNatGatewayDelete_pending:
  "snd (snd (fst (waitForNatGatewayDelete api nId st))) = None
    \<Longrightarrow> fst (snd (fst (waitForNatGatewayDelete api nId st))) = ''ACTIVE''
    \<Longrightarrow> snd (fst (natgateways_Get api nId (remote st))) = None"
  by (simp add: waitForNatGatewayDelete_def call_Get_def call_Delete_def Let_def
      case_prod_beta split: option.splits if_splits)

text \<open>
  A delete-wait that returns has made, from the state it started in, a number of
  refresh invocations that each called Get and then Delete, and a last one that called
  Get, and Delete only after it.
\<close>

lemma delete_run_calls:
  assumes run: "poll (deleteStateConf api d) elapsed polls st = Some y"
  shows "\<exists>m tl. fst (snd y) = polls + m + 1
       \<and> calls (snd (snd y)) =
           calls st @ concat (replicate m [CallGet (d_Id d), CallDelete (d_Id d)]) @ tl
       \<and> (tl = [CallGet (d_Id d)] \<or> tl = [CallGet (d_Id d), CallDelete (d_Id d)])"
proof -
  let ?G = "CallGet (d_Id d)" and ?D = "CallDelete (d_Id d)"
  let ?Q = "\<lambda>conf (elapsed :: int) polls s y. conf = deleteStateConf api d \<longrightarrow>
    (\<exists>m tl. fst (snd y) = polls + m + 1
       \<and> calls (snd (snd y)) = calls s @ concat (replicate m [?G, ?D]) @ tl
       \<and> (tl = [?G] \<or> tl = [?G, ?D]))"
  have "?Q (deleteStateConf api d) elapsed polls st y"
  proof (rule poll.raw_induct [where P = ?Q, OF _ run])
    fix poll' conf elapsed polls s y
    assume IH: "\<And>c e p s y. poll' c e p s = Some y \<Longrightarrow> ?Q c e p s y"
      and body: "(case Refresh conf s of
         (outcome, s') \<Rightarrow>
           (case judge conf outcome of
              Stop r \<Rightarrow> Some (r, Suc polls, s')
            | Again \<Rightarrow>
                if Timeout conf < elapsed + pause conf
                then Some (Inl (TimeoutError (fst (snd outcome))), Suc polls, s')
                else poll' conf (elapsed + pause conf) (Suc polls) s')) = Some y"
    show "?Q conf elapsed polls s y"
    proof
      assume c: "conf = deleteStateConf api d"
      let ?W = "waitForNatGatewayDelete api (d_Id d) s"
      have R: "Refresh conf s = ?W" using c by (simp add: deleteStateConf_def)
      have tl: "calls (snd ?W) = calls s @ [?G] \<or> calls (snd ?W) = calls s @ [?G, ?D]"
        by (simp add: waitForNatGatewayDelete_calls)
      show "\<exists>m tl. fst (snd y) = polls + m + 1
         \<and> calls (snd (snd y)) = calls s @ concat (replicate m [?G, ?D]) @ tl
         \<and> (tl = [?G] \<or> tl = [?G, ?D])"
      proof (cases "judge conf (fst ?W)")
        case (Stop r)
        with body R have "y = (r, Suc polls, snd ?W)" by (simp add: case_prod_beta)
        with tl show ?thesis by (intro exI[of _ 0]) auto
      next
        case Again
        show ?thesis
        proof (cases "Timeout conf < elapsed + pause conf")
          case True
          with body R Again
          have "y = (Inl (TimeoutError (fst (snd (fst ?W)))), Suc polls, snd ?W)"
            by (simp add: case_prod_beta)
          with tl show ?thesis by (intro exI[of _ 0]) auto
        next
          case False
          with body R Again
          have rec: "poll' conf (elapsed + pause conf) (Suc polls) (snd ?W) = Some y"
            by (simp add: case_prod_beta)
          from judge_Again [OF Again] c
          have "snd (snd (fst ?W)) = None" and "fst (snd (fst ?W)) = ''ACTIVE''"
            by (simp_all add: deleteStateConf_def)
          then have "snd (fst (natgateways_Get api (d_Id d) (remote s))) = None"
            by (rule waitForNatGatewayDelete_pending)
          then have both: "calls (snd ?W) = calls s @ [?G, ?D]"
            by (simp add: waitForNatGatewayDelete_calls)
          from IH [OF rec] c obtain m tl where
            k: "fst (snd y) = Suc polls + m + 1"
            and cs: "calls (snd (snd y)) = calls (snd ?W) @ concat (replicate m [?G, ?D]) @ tl"
            and t: "tl = [?G] \<or> tl = [?G, ?D]"
            by blast
          from k cs t both show ?thesis
            by (intro exI[of _ "Suc m"] exI[of _ tl]) simp
        qed
      qed
    qed
  qed
  then show ?thesis by simp
qed

subsection \<open>Sample runs\<close>

lemmas nat_sample_defs =
  scripted_api_def vanishing_api_def failing_api_def racing_api_def building_api_def
  fresh_cloud_def sample_data_def

lemmas refresh_defs =
  waitForNatGatewayDelete_def waitForNatGatewayActive_def call_Get_def call_Delete_def

text \<open>
  The first poll of the vanishing gateway finds it, calls Delete and is told to go on;
  8 seconds (the delay and one pause) are within the 10 minutes.
\<close>

lemma vanishing_first_poll:
  "poll (deleteStateConf vanishing_api (sample_data (10 * Minute))) (5 * Second) 0 fresh_cloud
     = poll (deleteStateConf vanishing_api (sample_data (10 * Minute))) (8 * Second) 1
         \<lparr>remote = 2, calls = [CallGet ''gw-1'', CallDelete ''gw-1'']\<rparr>"
proof -
  let ?conf = "deleteStateConf vanishing_api (sample_data (10 * Minute))"
  have r: "Refresh ?conf fresh_cloud =
      ((Some \<lparr>Status = ''ACTIVE''\<rparr>, ''ACTIVE'', None),
       \<lparr>remote = 2, calls = [CallGet ''gw-1'', CallDelete ''gw-1'']\<rparr>)"
    by (simp add: deleteStateConf_def refresh_defs nat_sample_defs)
  have j: "judge ?conf (Some \<lparr>Status = ''ACTIVE''\<rparr>, ''ACTIVE'', None) = Again"
    by (simp add: judge_label deleteStateConf_def)
  have t: "\<not> 5 * Second + pause ?conf > Timeout ?conf"
    by (simp add: pause_def deleteStateConf_def sample_data_def Second_def Minute_def)
  have p: "5 * Second + pause ?conf = 8 * Second"
    by (simp add: pause_def deleteStateConf_def Second_def)
  from poll_Again [OF r j t, of 0] p show ?thesis by simp
qed

subsection \<open>The claims\<close>

text \<open>
  Claim C1.  Take any poll of a delete-wait: the refresh runs in some state \<open>st\<close>, after
  any time elapsed and any number of earlier polls.  Let \<open>e\<close> be the error of Get, or
  the error of the embedded Delete when Get succeeded.  If \<open>e\<close> is the not-found kind,
  the refresh returns the label DELETED with no error and the poller returns success
  with this poll.  If \<open>e\<close> is any other error, the refresh returns that error and the
  poller returns it with this poll.
\<close>

theorem delete_refresh_classifies_errors:
  assumes G: "natgateways_Get api (d_Id d) (remote st) = ((n, gerr), w1)"
    and D: "natgateways_Delete api (d_Id d) w1 = (derr, w2)"
    and R: "waitForNatGatewayDelete api (d_Id d) st = (outcome, st')"
    and E: "gerr = Some e \<or> gerr = None \<and> derr = Some e"
  shows "(is404 e \<longrightarrow> outcome = (Some n, ''DELETED'', None)
            \<and> poll (deleteStateConf api d) elapsed polls st = Some (Inr (Some n), Suc polls, st'))
       \<and> (\<not> is404 e \<longrightarrow> outcome = (Some n, ''ACTIVE'', Some e)
            \<and> poll (deleteStateConf api d) elapsed polls st = Some (Inl e, Suc polls, st'))"
proof -
  have ref: "Refresh (deleteStateConf api d) st = (outcome, st')"
    using R by (simp add: deleteStateConf_def)
  have out: "outcome = (Some n, if is404 e then ''DELETED'' else ''ACTIVE'',
                        if is404 e then None else Some e)"
    using waitForNatGatewayDelete_cases [OF G D] R E by auto
  have tgt: "Target (deleteStateConf api d) = [''DELETED'']"
    by (simp add: deleteStateConf_def)
  show ?thesis
  proof (cases "is404 e")
    case True
    with out tgt have "judge (deleteStateConf api d) outcome = Stop (Inr (Some n))"
      by (simp add: judge_label)
    from poll_Stop [OF ref this] True out show ?thesis by simp
  next
    case False
    with out have "judge (deleteStateConf api d) outcome = Stop (Inl e)"
      by (simp add: judge_error)
    from poll_Stop [OF ref this] False out show ?thesis by simp
  qed
qed

theorem delete_refresh_classifies_errors_witness:
  "natgateways_Get vanishing_api ''gw-1'' 2
      = ((\<lparr>Status = ''''\<rparr>, Some (ErrDefault404 ''gw-1'')), 3)
   \<and> is404 (ErrDefault404 ''gw-1'')
   \<and> WaitForState (deleteStateConf vanishing_api (sample_data (10 * Minute))) fresh_cloud
      = Some (Inr (Some \<lparr>Status = ''''\<rparr>), 2,
              \<lparr>remote = 3, calls = [CallGet ''gw-1'', CallDelete ''gw-1'', CallGet ''gw-1'']\<rparr>)
   \<and> natgateways_Delete racing_api ''gw-1'' 1 = (Some (ErrDefault404 ''gw-1''), 2)
   \<and> WaitForState (deleteStateConf racing_api (sample_data (10 * Minute))) fresh_cloud
      = Some (Inr (Some \<lparr>Status = ''ACTIVE''\<rparr>), 1,
              \<lparr>remote = 2, calls = [CallGet ''gw-1'', CallDelete ''gw-1'']\<rparr>)
   \<and> \<not> is404 (ErrUnexpectedResponseCode 500)
   \<and> WaitForState (deleteStateConf (failing_api (ErrUnexpectedResponseCode 500))
        (sample_data (10 * Minute))) fresh_cloud
      = Some (Inl (ErrUnexpectedResponseCode 500), 1, \<lparr>remote = 1, calls = [CallGet ''gw-1'']\<rparr>)"
proof -
  let ?d = "sample_data (10 * Minute)"
  let ?st1 = "\<lparr>remote = 2 :: nat, calls = [CallGet ''gw-1'', CallDelete ''gw-1'']\<rparr>"
  let ?st2 = "\<lparr>remote = 3 :: nat,
               calls = [CallGet ''gw-1'', CallDelete ''gw-1'', CallGet ''gw-1'']\<rparr>"
  have G: "natgateways_Get vanishing_api (d_Id ?d) (remote ?st1)
      = ((\<lparr>Status = ''''\<rparr>, Some (ErrDefault404 ''gw-1'')), 3)"
    by (simp add: nat_sample_defs)
  have D: "natgateways_Delete vanishing_api (d_Id ?d) 3 = (None, 4)"
    by (simp add: nat_sample_defs)
  have R: "waitForNatGatewayDelete vanishing_api (d_Id ?d) ?st1
      = ((Some \<lparr>Status = ''''\<rparr>, ''DELETED'', None), ?st2)"
    by (simp add: refresh_defs nat_sample_defs)
  from delete_refresh_classifies_errors
    [OF G D R, where e = "ErrDefault404 ''gw-1''" and elapsed = "8 * Second" and polls = 1]
  have second: "poll (deleteStateConf vanishing_api ?d) (8 * Second) 1 ?st1
      = Some (Inr (Some \<lparr>Status = ''''\<rparr>), 2, ?st2)"
    by simp
  have a: "WaitForState (deleteStateConf vanishing_api ?d) fresh_cloud
      = Some (Inr (Some \<lparr>Status = ''''\<rparr>), 2, ?st2)"
    using vanishing_first_poll second by (simp add: WaitForState_def deleteStateConf_def)
  let ?r1 = "\<lparr>remote = 2 :: nat, calls = [CallGet ''gw-1'', CallDelete ''gw-1'']\<rparr>"
  have G2: "natgateways_Get racing_api (d_Id ?d) (remote fresh_cloud)
      = ((\<lparr>Status = ''ACTIVE''\<rparr>, None), 1)"
    by (simp add: nat_sample_defs)
  have D2: "natgateways_Delete racing_api (d_Id ?d) 1 = (Some (ErrDefault404 ''gw-1''), 2)"
    by (simp add: nat_sample_defs)
  have R2: "waitForNatGatewayDelete racing_api (d_Id ?d) fresh_cloud
      = ((Some \<lparr>Status = ''ACTIVE''\<rparr>, ''DELETED'', None), ?r1)"
    by (simp add: refresh_defs nat_sample_defs)
  from delete_refresh_classifies_errors
    [OF G2 D2 R2, where e = "ErrDefault404 ''gw-1''" and elapsed = "5 * Second" and polls = 0]
  have b: "WaitForState (deleteStateConf racing_api ?d) fresh_cloud
      = Some (Inr (Some \<lparr>Status = ''ACTIVE''\<rparr>), 1, ?r1)"
    by (simp add: WaitForState_def deleteStateConf_def)
  let ?e = "ErrUnexpectedResponseCode 500"
  let ?f1 = "\<lparr>remote = 1 :: nat, calls = [CallGet ''gw-1'']\<rparr>"
  have G3: "natgateways_Get (failing_api ?e) (d_Id ?d) (remote fresh_cloud)
      = ((\<lparr>Status = ''''\<rparr>, Some ?e), 1)"
    by (simp add: nat_sample_defs)
  have D3: "natgateways_Delete (failing_api ?e) (d_Id ?d) 1 = (None, 2)"
    by (simp add: nat_sample_defs)
  have R3: "waitForNatGatewayDelete (failing_api ?e) (d_Id ?d) fresh_cloud
      = ((Some \<lparr>Status = ''''\<rparr>, ''ACTIVE'', Some ?e), ?f1)"
    by (simp add: refresh_defs nat_sample_defs)
  from delete_refresh_classifies_errors
    [OF G3 D3 R3, where e = ?e and elapsed = "5 * Second" and polls = 0]
  have c: "WaitForState (deleteStateConf (failing_api ?e) ?d) fresh_cloud
      = Some (Inl ?e, 1, ?f1)"
    by (simp add: WaitForState_def deleteStateConf_def)
  from a b c G D2 show ?thesis
    by (simp add: sample_data_def)
qed

text \<open>
  Claim C2.  One invocation of the delete refresh applies Get to the remote state, and
  then applies Delete, to the state Get left, exactly when that Get returned no error;
  it makes no other call.  The remote state after the invocation is the one Delete
  left when Get returned no error, and the one Get left otherwise, and the calls
  recorded are Get, followed by Delete in the first case only.  When Get returned no
  error, the label and the error the invocation reports are read off the answer of
  that Delete; when Get returned an error, they are read off that error and the remote
  state is not touched again.  So after a not-found (or any error) from Get, Delete is
  not issued.
  When an invocation reports the label DELETED, the poller returns success with that
  poll, in the state the invocation left: no refresh, and so no Delete, follows.  Over
  a whole delete-wait that returns, the calls are a number of Get-Delete pairs and then
  the calls of the last invocation.
\<close>

theorem delete_attempted_iff_get_succeeded:
  "calls (snd (waitForNatGatewayDelete api nId st)) =
      calls st @ CallGet nId #
        (if snd (fst (natgateways_Get api nId (remote st))) = None then [CallDelete nId] else [])
   \<and> remote (snd (waitForNatGatewayDelete api nId st)) =
        (if snd (fst (natgateways_Get api nId (remote st))) = None
         then snd (natgateways_Delete api nId (snd (natgateways_Get api nId (remote st))))
         else snd (natgateways_Get api nId (remote st)))
   \<and> (snd (fst (natgateways_Get api nId (remote st))) = None \<longrightarrow>
        fst (waitForNatGatewayDelete api nId st) =
          (Some (fst (fst (natgateways_Get api nId (remote st)))),
           (case fst (natgateways_Delete api nId (snd (natgateways_Get api nId (remote st)))) of
              Some e \<Rightarrow> if is404 e then ''DELETED'' else ''ACTIVE''
            | None \<Rightarrow> ''ACTIVE''),
           (case fst (natgateways_Delete api nId (snd (natgateways_Get api nId (remote st)))) of
              Some e \<Rightarrow> if is404 e then None else Some e
            | None \<Rightarrow> None)))
   \<and> (\<forall>e. snd (fst (natgateways_Get api nId (remote st))) = Some e \<longrightarrow>
        fst (waitForNatGatewayDelete api nId st) =
          (Some (fst (fst (natgateways_Get api nId (remote st)))),
           if is404 e then ''DELETED'' else ''ACTIVE'', if is404 e then None else Some e))
   \<and> (\<forall>v err. fst (waitForNatGatewayDelete api (d_Id d) st) = (v, ''DELETED'', err)
        \<longrightarrow> poll (deleteStateConf api d) elapsed polls st =
              Some (Inr v, Suc polls, snd (waitForNatGatewayDelete api (d_Id d) st)))
   \<and> (\<forall>r k st'. poll (deleteStateConf api d) elapsed polls st = Some (r, k, st')
        \<longrightarrow> (\<exists>m tl. k = polls + m + 1
              \<and> calls st' =
                  calls st @ concat (replicate m [CallGet (d_Id d), CallDelete (d_Id d)]) @ tl
              \<and> (tl = [CallGet (d_Id d)] \<or> tl = [CallGet (d_Id d), CallDelete (d_Id d)])))"
proof (intro conjI allI impI)
  show "calls (snd (waitForNatGatewayDelete api nId st)) =
      calls st @ CallGet nId #
        (if snd (fst (natgateways_Get api nId (remote st))) = None then [CallDelete nId] else [])"
    by (rule waitForNatGatewayDelete_calls)
next
  show "remote (snd (waitForNatGatewayDelete api nId st)) =
        (if snd (fst (natgateways_Get api nId (remote st))) = None
         then snd (natgateways_Delete api nId (snd (natgateways_Get api nId (remote st))))
         else snd (natgateways_Get api nId (remote st)))"
    by (rule waitForNatGatewayDelete_remote)
next
  assume "snd (fst (natgateways_Get api nId (remote st))) = None"
  then show "fst (waitForNatGatewayDelete api nId st) =
          (Some (fst (fst (natgateways_Get api nId (remote st)))),
           (case fst (natgateways_Delete api nId (snd (natgateways_Get api nId (remote st)))) of
              Some e \<Rightarrow> if is404 e then ''DELETED'' else ''ACTIVE''
            | None \<Rightarrow> ''ACTIVE''),
           (case fst (natgateways_Delete api nId (snd (natgateways_Get api nId (remote st)))) of
              Some e \<Rightarrow> if is404 e then None else Some e
            | None \<Rightarrow> None))"
    by (rule waitForNatGatewayDelete_present)
next
  fix e
  assume "snd (fst (natgateways_Get api nId (remote st))) = Some e"
  then show "fst (waitForNatGatewayDelete api nId st) =
          (Some (fst (fst (natgateways_Get api nId (remote st)))),
           if is404 e then ''DELETED'' else ''ACTIVE'', if is404 e then None else Some e)"
    by (rule waitForNatGatewayDelete_absent)
next
  fix v err
  assume a: "fst (waitForNatGatewayDelete api (d_Id d) st) = (v, ''DELETED'', err)"
  obtain n gerr w1 where g: "natgateways_Get api (d_Id d) (remote st) = ((n, gerr), w1)"
    by (metis surj_pair)
  obtain derr w2 where dl: "natgateways_Delete api (d_Id d) w1 = (derr, w2)"
    by (metis surj_pair)
  from a have "err = None"
    by (auto simp: waitForNatGatewayDelete_cases [OF g dl] split: option.splits if_splits)
  with a have ref: "Refresh (deleteStateConf api d) st =
      ((v, ''DELETED'', None), snd (waitForNatGatewayDelete api (d_Id d) st))"
    by (simp add: deleteStateConf_def prod_eq_iff)
  have "judge (deleteStateConf api d) (v, ''DELETED'', None) = Stop (Inr v)"
    by (simp add: judge_label deleteStateConf_def)
  from poll_Stop [OF ref this]
  show "poll (deleteStateConf api d) elapsed polls st =
              Some (Inr v, Suc polls, snd (waitForNatGatewayDelete api (d_Id d) st))" .
next
  fix r k st'
  assume "poll (deleteStateConf api d) elapsed polls st = Some (r, k, st')"
  from delete_run_calls [OF this]
  show "\<exists>m tl. k = polls + m + 1
      \<and> calls st' = calls st @ concat (replicate m [CallGet (d_Id d), CallDelete (d_Id d)]) @ tl
      \<and> (tl = [CallGet (d_Id d)] \<or> tl = [CallGet (d_Id d), CallDelete (d_Id d)])"
    by simp
qed

theorem delete_attempted_iff_get_succeeded_witness:
  "snd (fst (natgateways_Get vanishing_api ''gw-1'' (remote fresh_cloud))) = None
   \<and> waitForNatGatewayDelete vanishing_api ''gw-1'' fresh_cloud
      = ((Some \<lparr>Status = ''ACTIVE''\<rparr>, ''ACTIVE'', None),
         \<lparr>remote = 2, calls = [CallGet ''gw-1'', CallDelete ''gw-1'']\<rparr>)
   \<and> snd (natgateways_Delete vanishing_api ''gw-1''
            (snd (natgateways_Get vanishing_api ''gw-1'' (remote fresh_cloud)))) = 2
   \<and> waitForNatGatewayDelete vanishing_api ''gw-1''
        \<lparr>remote = 2, calls = [CallGet ''gw-1'', CallDelete ''gw-1'']\<rparr>
      = ((Some \<lparr>Status = ''''\<rparr>, ''DELETED'', None),
         \<lparr>remote = 3, calls = [CallGet ''gw-1'', CallDelete ''gw-1'', CallGet ''gw-1'']\<rparr>)
   \<and> poll (deleteStateConf vanishing_api (sample_data (10 * Minute))) (8 * Second) 1
        \<lparr>remote = 2, calls = [CallGet ''gw-1'', CallDelete ''gw-1'']\<rparr>
      = Some (Inr (Some \<lparr>Status = ''''\<rparr>), 2,
              \<lparr>remote = 3, calls = [CallGet ''gw-1'', CallDelete ''gw-1'', CallGet ''gw-1'']\<rparr>)"
proof -
  let ?d = "sample_data (10 * Minute)"
  let ?st1 = "\<lparr>remote = 2 :: nat, calls = [CallGet ''gw-1'', CallDelete ''gw-1'']\<rparr>"
  let ?st2 = "\<lparr>remote = 3 :: nat,
               calls = [CallGet ''gw-1'', CallDelete ''gw-1'', CallGet ''gw-1'']\<rparr>"
  have id: "d_Id ?d = ''gw-1''" by (simp add: sample_data_def)
  have g: "natgateways_Get vanishing_api ''gw-1'' (remote fresh_cloud)
      = ((\<lparr>Status = ''ACTIVE''\<rparr>, None), 1)"
    by (simp add: nat_sample_defs)
  have dl: "natgateways_Delete vanishing_api ''gw-1'' 1 = (None, 2)"
    by (simp add: nat_sample_defs)
  note T = delete_attempted_iff_get_succeeded
      [where api = vanishing_api and nId = "''gw-1''" and st = fresh_cloud and d = ?d
        and elapsed = 0 and polls = 0]
  have c: "calls fresh_cloud = []" by (simp add: fresh_cloud_def)
  from T [THEN conjunct1] g c
  have cs: "calls (snd (waitForNatGatewayDelete vanishing_api ''gw-1'' fresh_cloud))
      = [CallGet ''gw-1'', CallDelete ''gw-1'']"
    by simp
  from T [THEN conjunct2, THEN conjunct1] g dl
  have rm: "remote (snd (waitForNatGatewayDelete vanishing_api ''gw-1'' fresh_cloud)) = 2"
    by simp
  from T [THEN conjunct2, THEN conjunct2, THEN conjunct1] g dl
  have out: "fst (waitForNatGatewayDelete vanishing_api ''gw-1'' fresh_cloud)
      = (Some \<lparr>Status = ''ACTIVE''\<rparr>, ''ACTIVE'', None)"
    by simp
  have sn: "snd (waitForNatGatewayDelete vanishing_api ''gw-1'' fresh_cloud) = ?st1"
    using cs rm by (cases "snd (waitForNatGatewayDelete vanishing_api ''gw-1'' fresh_cloud)") simp
  have first: "waitForNatGatewayDelete vanishing_api ''gw-1'' fresh_cloud
      = ((Some \<lparr>Status = ''ACTIVE''\<rparr>, ''ACTIVE'', None), ?st1)"
    using out sn by (simp add: prod_eq_iff)
  have w: "waitForNatGatewayDelete vanishing_api ''gw-1'' ?st1
      = ((Some \<lparr>Status = ''''\<rparr>, ''DELETED'', None), ?st2)"
    by (simp add: refresh_defs nat_sample_defs)
  have second: "poll (deleteStateConf vanishing_api ?d) (8 * Second) 1 ?st1
      = Some (Inr (Some \<lparr>Status = ''''\<rparr>), 2, ?st2)"
    using delete_attempted_iff_get_succeeded
      [where api = vanishing_api and nId = "''gw-1''" and st = ?st1 and d = ?d
        and elapsed = "8 * Second" and polls = 1] w id
    by simp
  from g dl first w second show ?thesis by simp
qed

text \<open>
  Claim C3.  The spec has every label in neither the pending nor the target set end the
  poll at once, in create-polling and in delete-polling.  The create-wait configuration
  names no pending label, so the empty label that its refresh returns for a gateway in
  status BUILD is not yet a target and is polled again: with a timeout of 10 seconds
  the wait makes a second refresh at 8 seconds and ends in a timeout, not in an
  unexpected-state error.
\<close>

theorem create_wait_polls_unexpected_label_again:
  "fst (Refresh (createStateConf building_api (sample_data (10 * Second)) ''gw-1'') fresh_cloud)
      = (Some \<lparr>Status = ''BUILD''\<rparr>, '''', None)
   \<and> '''' \<notin> set (Pending (createStateConf building_api (sample_data (10 * Second)) ''gw-1''))
   \<and> '''' \<notin> set (Target (createStateConf building_api (sample_data (10 * Second)) ''gw-1''))
   \<and> WaitForState (createStateConf building_api (sample_data (10 * Second)) ''gw-1'') fresh_cloud
      = Some (Inl (TimeoutError ''''), 2,
              \<lparr>remote = 2, calls = [CallGet ''gw-1'', CallGet ''gw-1'']\<rparr>)"
proof -
  let ?conf = "createStateConf building_api (sample_data (10 * Second)) ''gw-1''"
  let ?b = "\<lparr>Status = ''BUILD''\<rparr>"
  let ?s1 = "\<lparr>remote = 1 :: nat, calls = [CallGet ''gw-1'']\<rparr>"
  let ?s2 = "\<lparr>remote = 2 :: nat, calls = [CallGet ''gw-1'', CallGet ''gw-1'']\<rparr>"
  have r1: "Refresh ?conf fresh_cloud = ((Some ?b, '''', None), ?s1)"
    by (simp add: createStateConf_def refresh_defs nat_sample_defs)
  have r2: "Refresh ?conf ?s1 = ((Some ?b, '''', None), ?s2)"
    by (simp add: createStateConf_def refresh_defs nat_sample_defs)
  have j: "judge ?conf (Some ?b, '''', None) = Again"
    by (simp add: judge_label createStateConf_def)
  have p: "pause ?conf = 3 * Second"
    by (simp add: pause_def createStateConf_def Second_def)
  have t1: "\<not> 5 * Second + pause ?conf > Timeout ?conf"
    unfolding p by (simp add: createStateConf_def sample_data_def Second_def)
  have t2: "5 * Second + pause ?conf + pause ?conf > Timeout ?conf"
    unfolding p by (simp add: createStateConf_def sample_data_def Second_def)
  have dly: "Delay ?conf = 5 * Second"
    by (simp add: createStateConf_def)
  have "poll ?conf (5 * Second) 0 fresh_cloud = poll ?conf (5 * Second + pause ?conf) 1 ?s1"
    using poll_Again [OF r1 j t1, of 0] by simp
  also have "\<dots> = Some (Inl (TimeoutError ''''), 2, ?s2)"
    using poll_Timeout [OF r2 j t2, of 1] by simp
  finally have "WaitForState ?conf fresh_cloud = Some (Inl (TimeoutError ''''), 2, ?s2)"
    by (simp only: WaitForState_def dly)
  moreover have "'''' \<notin> set (Pending ?conf)" and "'''' \<notin> set (Target ?conf)"
    by (simp_all add: createStateConf_def)
  ultimately show ?thesis using r1 by simp
qed

text \<open>
  Claim C3, as amended.  When a refresh returns, without an error, a label that is in
  neither the pending set nor the target set, and the configuration names a pending
  label, the poller returns the unexpected-state error with that very poll, in the
  state the refresh left: it does not invoke refresh again.  The create-wait
  configuration names no pending label: for a gateway whose status is not ACTIVE its
  refresh returns the empty label, which is in neither set, and a poll made before the
  deadline has the poller sleep 3 seconds and poll again, or report a timeout when the
  deadline has then passed.  The
  delete refresh returns ACTIVE for every gateway that is still there and whose Delete
  is accepted, whatever its status, and the poller likewise polls again or times out;
  the delete refresh returns ACTIVE or DELETED only, the pending and the target label
  of the delete-wait configuration, so no label is unexpected there.
\<close>

theorem unexpected_label_is_fatal_under_pending:
  "(Refresh conf s = ((v, label, None), s') \<and> label \<notin> set (Pending conf)
        \<and> label \<notin> set (Target conf) \<and> Pending conf \<noteq> []
      \<longrightarrow> poll conf elapsed polls s = Some (Inl (UnexpectedStateError label), Suc polls, s')
        \<and> WaitForState conf s = Some (Inl (UnexpectedStateError label), 1, s'))
   \<and> (natgateways_Get api nId (remote st) = ((n, None), w1) \<and> Status n \<noteq> ''ACTIVE''
        \<and> elapsed \<le> d_Timeout d TimeoutCreate
      \<longrightarrow> waitForNatGatewayActive api nId st =
            ((Some n, '''', None), \<lparr>remote = w1, calls = calls st @ [CallGet nId]\<rparr>)
        \<and> '''' \<notin> set (Pending (createStateConf api d nId))
        \<and> '''' \<notin> set (Target (createStateConf api d nId))
        \<and> poll (createStateConf api d nId) elapsed polls st =
            (if d_Timeout d TimeoutCreate < elapsed + 3 * Second
             then Some (Inl (TimeoutError ''''), Suc polls,
                        \<lparr>remote = w1, calls = calls st @ [CallGet nId]\<rparr>)
             else poll (createStateConf api d nId) (elapsed + 3 * Second) (Suc polls)
                    \<lparr>remote = w1, calls = calls st @ [CallGet nId]\<rparr>))
   \<and> (natgateways_Get api (d_Id d) (remote st) = ((g, None), w1)
        \<and> natgateways_Delete api (d_Id d) w1 = (None, w2)
        \<and> elapsed \<le> d_Timeout d TimeoutDelete
      \<longrightarrow> waitForNatGatewayDelete api (d_Id d) st =
            ((Some g, ''ACTIVE'', None),
             \<lparr>remote = w2, calls = calls st @ [CallGet (d_Id d), CallDelete (d_Id d)]\<rparr>)
        \<and> poll (deleteStateConf api d) elapsed polls st =
            (if d_Timeout d TimeoutDelete < elapsed + 3 * Second
             then Some (Inl (TimeoutError ''ACTIVE''), Suc polls,
                        \<lparr>remote = w2, calls = calls st @ [CallGet (d_Id d), CallDelete (d_Id d)]\<rparr>)
             else poll (deleteStateConf api d) (elapsed + 3 * Second) (Suc polls)
                    \<lparr>remote = w2, calls = calls st @ [CallGet (d_Id d), CallDelete (d_Id d)]\<rparr>))
   \<and> fst (snd (fst (waitForNatGatewayDelete api nId st))) \<in> {''ACTIVE'', ''DELETED''}
   \<and> set (Pending (deleteStateConf api d)) \<union> set (Target (deleteStateConf api d))
        = {''ACTIVE'', ''DELETED''}"
proof (intro conjI impI)
  assume a: "Refresh conf s = ((v, label, None), s') \<and> label \<notin> set (Pending conf)
    \<and> label \<notin> set (Target conf) \<and> Pending conf \<noteq> []"
  then have j: "judge conf (v, label, None) = Stop (Inl (UnexpectedStateError label))"
    by (simp add: judge_label)
  from a have r: "Refresh conf s = ((v, label, None), s')" by simp
  show "poll conf elapsed polls s = Some (Inl (UnexpectedStateError label), Suc polls, s')"
    by (rule poll_Stop [OF r j])
  show "WaitForState conf s = Some (Inl (UnexpectedStateError label), 1, s')"
    unfolding WaitForState_def using poll_Stop [OF r j, of "Delay conf" 0] by simp
next
  assume a: "natgateways_Get api nId (remote st) = ((n, None), w1) \<and> Status n \<noteq> ''ACTIVE''
        \<and> elapsed \<le> d_Timeout d TimeoutCreate"
  then have g: "natgateways_Get api nId (remote st) = ((n, None), w1)" by simp
  let ?conf = "createStateConf api d nId"
  let ?s1 = "\<lparr>remote = w1, calls = calls st @ [CallGet nId]\<rparr>"
  show w: "waitForNatGatewayActive api nId st = ((Some n, '''', None), ?s1)"
    using waitForNatGatewayActive_cases [OF g] a by simp
  show "'''' \<notin> set (Pending ?conf)" and "'''' \<notin> set (Target ?conf)"
    by (simp_all add: createStateConf_def)
  have ref: "Refresh ?conf st = ((Some n, '''', None), ?s1)"
    using w by (simp add: createStateConf_def)
  have j: "judge ?conf (Some n, '''', None) = Again"
    by (simp add: judge_label createStateConf_def)
  have p: "pause ?conf = 3 * Second"
    by (simp add: pause_def createStateConf_def Second_def)
  have t: "Timeout ?conf = d_Timeout d TimeoutCreate"
    by (simp add: createStateConf_def)
  show "poll ?conf elapsed polls st =
      (if d_Timeout d TimeoutCreate < elapsed + 3 * Second
       then Some (Inl (TimeoutError ''''), Suc polls, ?s1)
       else poll ?conf (elapsed + 3 * Second) (Suc polls) ?s1)"
  proof (cases "d_Timeout d TimeoutCreate < elapsed + 3 * Second")
    case True
    then have "elapsed + pause ?conf > Timeout ?conf" by (simp add: p t)
    from poll_Timeout [OF ref j this] True show ?thesis by simp
  next
    case False
    then have "\<not> elapsed + pause ?conf > Timeout ?conf" by (simp add: p t)
    from poll_Again [OF ref j this] False p show ?thesis by simp
  qed
next
  assume a: "natgateways_Get api (d_Id d) (remote st) = ((g, None), w1)
        \<and> natgateways_Delete api (d_Id d) w1 = (None, w2)
        \<and> elapsed \<le> d_Timeout d TimeoutDelete"
  then have g: "natgateways_Get api (d_Id d) (remote st) = ((g, None), w1)"
    and dl: "natgateways_Delete api (d_Id d) w1 = (None, w2)" by simp_all
  let ?conf = "deleteStateConf api d"
  let ?s2 = "\<lparr>remote = w2, calls = calls st @ [CallGet (d_Id d), CallDelete (d_Id d)]\<rparr>"
  show w: "waitForNatGatewayDelete api (d_Id d) st = ((Some g, ''ACTIVE'', None), ?s2)"
    using waitForNatGatewayDelete_cases [OF g dl] by simp
  have ref: "Refresh ?conf st = ((Some g, ''ACTIVE'', None), ?s2)"
    using w by (simp add: deleteStateConf_def)
  have j: "judge ?conf (Some g, ''ACTIVE'', None) = Again"
    by (simp add: judge_label deleteStateConf_def)
  have p: "pause ?conf = 3 * Second"
    by (simp add: pause_def deleteStateConf_def Second_def)
  have t: "Timeout ?conf = d_Timeout d TimeoutDelete"
    by (simp add: deleteStateConf_def)
  show "poll ?conf elapsed polls st =
      (if d_Timeout d TimeoutDelete < elapsed + 3 * Second
       then Some (Inl (TimeoutError ''ACTIVE''), Suc polls, ?s2)
       else poll ?conf (elapsed + 3 * Second) (Suc polls) ?s2)"
  proof (cases "d_Timeout d TimeoutDelete < elapsed + 3 * Second")
    case True
    then have "elapsed + pause ?conf > Timeout ?conf" by (simp add: p t)
    from poll_Timeout [OF ref j this] True show ?thesis by simp
  next
    case False
    then have "\<not> elapsed + pause ?conf > Timeout ?conf" by (simp add: p t)
    from poll_Again [OF ref j this] False p show ?thesis by simp
  qed
next
  obtain n gerr w1 where g: "natgateways_Get api nId (remote st) = ((n, gerr), w1)"
    by (metis surj_pair)
  obtain derr w2 where dl: "natgateways_Delete api nId w1 = (derr, w2)"
    by (metis surj_pair)
  show "fst (snd (fst (waitForNatGatewayDelete api nId st))) \<in> {''ACTIVE'', ''DELETED''}"
    by (simp add: waitForNatGatewayDelete_cases [OF g dl] split: option.splits)
next
  show "set (Pending (deleteStateConf api d)) \<union> set (Target (deleteStateConf api d))
        = {''ACTIVE'', ''DELETED''}"
    by (auto simp: deleteStateConf_def)
qed

theorem unexpected_label_is_fatal_under_pending_witness:
  "Refresh ((createStateConf building_api (sample_data (10 * Minute)) ''gw-1'')
              \<lparr>Pending := [''BUILD'']\<rparr>) fresh_cloud
      = ((Some \<lparr>Status = ''BUILD''\<rparr>, '''', None), \<lparr>remote = 1, calls = [CallGet ''gw-1'']\<rparr>)
   \<and> WaitForState ((createStateConf building_api (sample_data (10 * Minute)) ''gw-1'')
              \<lparr>Pending := [''BUILD'']\<rparr>) fresh_cloud
      = Some (Inl (UnexpectedStateError ''''), 1, \<lparr>remote = 1, calls = [CallGet ''gw-1'']\<rparr>)
   \<and> natgateways_Get building_api ''gw-1'' (remote fresh_cloud)
      = ((\<lparr>Status = ''BUILD''\<rparr>, None), 1)
   \<and> 5 * Second \<le> d_Timeout (sample_data (10 * Minute)) TimeoutCreate
   \<and> 5 * Second \<le> d_Timeout (sample_data (10 * Minute)) TimeoutDelete
   \<and> poll (createStateConf building_api (sample_data (10 * Minute)) ''gw-1'') (5 * Second) 0
        fresh_cloud
      = poll (createStateConf building_api (sample_data (10 * Minute)) ''gw-1'') (8 * Second) 1
          \<lparr>remote = 1, calls = [CallGet ''gw-1'']\<rparr>
   \<and> natgateways_Delete building_api ''gw-1'' 1 = (None, 2)
   \<and> waitForNatGatewayDelete building_api ''gw-1'' fresh_cloud
      = ((Some \<lparr>Status = ''BUILD''\<rparr>, ''ACTIVE'', None),
         \<lparr>remote = 2, calls = [CallGet ''gw-1'', CallDelete ''gw-1'']\<rparr>)
   \<and> poll (deleteStateConf building_api (sample_data (10 * Minute))) (5 * Second) 0 fresh_cloud
      = poll (deleteStateConf building_api (sample_data (10 * Minute))) (8 * Second) 1
          \<lparr>remote = 2, calls = [CallGet ''gw-1'', CallDelete ''gw-1'']\<rparr>"
proof -
  let ?d = "sample_data (10 * Minute)"
  let ?conf = "createStateConf building_api ?d ''gw-1''"
  let ?pconf = "?conf\<lparr>Pending := [''BUILD'']\<rparr>"
  let ?b = "\<lparr>Status = ''BUILD''\<rparr>"
  let ?s1 = "\<lparr>remote = 1 :: nat, calls = [CallGet ''gw-1'']\<rparr>"
  let ?s2 = "\<lparr>remote = 2 :: nat, calls = [CallGet ''gw-1'', CallDelete ''gw-1'']\<rparr>"
  have id: "d_Id ?d = ''gw-1''" and c: "calls fresh_cloud = []"
    by (simp_all add: sample_data_def fresh_cloud_def)
  have r: "Refresh ?pconf fresh_cloud = ((Some ?b, '''', None), ?s1)"
    by (simp add: createStateConf_def refresh_defs nat_sample_defs)
  have u: "'''' \<notin> set (Pending ?pconf)" "'''' \<notin> set (Target ?pconf)" "Pending ?pconf \<noteq> []"
    by (simp_all add: createStateConf_def)
  have g: "natgateways_Get building_api ''gw-1'' (remote fresh_cloud) = ((?b, None), 1)"
    by (simp add: nat_sample_defs)
  have dl: "natgateways_Delete building_api ''gw-1'' 1 = (None, 2)"
    by (simp add: nat_sample_defs)
  have tc: "\<not> d_Timeout ?d TimeoutCreate < 5 * Second + 3 * Second"
    and td: "\<not> d_Timeout ?d TimeoutDelete < 5 * Second + 3 * Second"
    and lc: "5 * Second \<le> d_Timeout ?d TimeoutCreate"
    and ld: "5 * Second \<le> d_Timeout ?d TimeoutDelete"
    by (simp_all add: sample_data_def Second_def Minute_def)
  have e: "5 * Second + 3 * Second = 8 * Second" by (simp add: Second_def)
  note T = unexpected_label_is_fatal_under_pending
    [where conf = ?pconf and s = fresh_cloud and v = "Some ?b" and label = "''''"
      and s' = ?s1 and api = building_api and nId = "''gw-1''" and st = fresh_cloud
      and n = ?b and ?w1.0 = 1 and d = ?d and elapsed = "5 * Second" and polls = 0
      and g = ?b and ?w2.0 = 2]
  from T [THEN conjunct1] r u
  have a1: "WaitForState ?pconf fresh_cloud = Some (Inl (UnexpectedStateError ''''), 1, ?s1)"
    by simp
  from T [THEN conjunct2, THEN conjunct1] g tc lc c
  have a2: "poll ?conf (5 * Second) 0 fresh_cloud = poll ?conf (8 * Second) 1 ?s1"
    by (simp add: e)
  from T [THEN conjunct2, THEN conjunct2, THEN conjunct1] g dl td ld c id
  have a3: "waitForNatGatewayDelete building_api ''gw-1'' fresh_cloud
        = ((Some ?b, ''ACTIVE'', None), ?s2)
      \<and> poll (deleteStateConf building_api ?d) (5 * Second) 0 fresh_cloud
        = poll (deleteStateConf building_api ?d) (8 * Second) 1 ?s2"
    by (simp add: e)
  from r a1 g lc ld a2 dl a3 show ?thesis by simp
qed

text \<open>
  Claim C5.  In create-polling the refresh returns whatever error Get returns, a
  not-found error included, with no value and the empty label, and the poller returns
  that error with this poll.  The poller turns an error into success only when it is
  the not-found kind and the target set holds the absent sentinel; the create-wait
  configuration, whose only target is ACTIVE, does not hold it.
\<close>

theorem create_refresh_propagates_every_error:
  assumes G: "natgateways_Get api nId (remote st) = ((n, Some e), w1)"
  shows "waitForNatGatewayActive api nId st =
           ((None, '''', Some e), \<lparr>remote = w1, calls = calls st @ [CallGet nId]\<rparr>)
       \<and> poll (createStateConf api d nId) elapsed polls st =
           Some (Inl e, Suc polls, \<lparr>remote = w1, calls = calls st @ [CallGet nId]\<rparr>)
       \<and> (\<forall>conf v label. judge conf (v, label, Some e) = Stop (Inr v)
             \<longleftrightarrow> is404 e \<and> absent_sentinel \<in> set (Target conf))
       \<and> absent_sentinel \<notin> set (Target (createStateConf api d nId))"
proof -
  have w: "waitForNatGatewayActive api nId st =
           ((None, '''', Some e), \<lparr>remote = w1, calls = calls st @ [CallGet nId]\<rparr>)"
    using waitForNatGatewayActive_cases [OF G] by simp
  then have ref: "Refresh (createStateConf api d nId) st =
           ((None, '''', Some e), \<lparr>remote = w1, calls = calls st @ [CallGet nId]\<rparr>)"
    by (simp add: createStateConf_def)
  have nt: "absent_sentinel \<notin> set (Target (createStateConf api d nId))"
    by (simp add: createStateConf_def absent_sentinel_def)
  then have "judge (createStateConf api d nId) (None, '''', Some e) = Stop (Inl e)"
    by (simp add: judge_error)
  from poll_Stop [OF ref this] w nt show ?thesis
    by (simp add: judge_error)
qed

theorem create_refresh_propagates_every_error_witness:
  "natgateways_Get (failing_api (ErrDefault404 ''gw-1'')) ''gw-1'' (remote fresh_cloud)
      = ((\<lparr>Status = ''''\<rparr>, Some (ErrDefault404 ''gw-1'')), 1)
   \<and> is404 (ErrDefault404 ''gw-1'')
   \<and> waitForNatGatewayActive (failing_api (ErrDefault404 ''gw-1'')) ''gw-1'' fresh_cloud
      = ((None, '''', Some (ErrDefault404 ''gw-1'')), \<lparr>remote = 1, calls = [CallGet ''gw-1'']\<rparr>)
   \<and> WaitForState (createStateConf (failing_api (ErrDefault404 ''gw-1''))
        (sample_data (10 * Minute)) ''gw-1'') fresh_cloud
      = Some (Inl (ErrDefault404 ''gw-1''), 1, \<lparr>remote = 1, calls = [CallGet ''gw-1'']\<rparr>)"
proof -
  let ?api = "failing_api (ErrDefault404 ''gw-1'')"
  let ?conf = "createStateConf ?api (sample_data (10 * Minute)) ''gw-1''"
  have g: "natgateways_Get ?api ''gw-1'' (remote fresh_cloud)
      = ((\<lparr>Status = ''''\<rparr>, Some (ErrDefault404 ''gw-1'')), 1)"
    by (simp add: nat_sample_defs)
  note T = create_refresh_propagates_every_error
    [OF g, where d = "sample_data (10 * Minute)" and elapsed = "Delay ?conf" and polls = 0]
  have c: "calls fresh_cloud = []" by (simp add: fresh_cloud_def)
  from T [THEN conjunct1] c
  have w: "waitForNatGatewayActive ?api ''gw-1'' fresh_cloud
      = ((None, '''', Some (ErrDefault404 ''gw-1'')), \<lparr>remote = 1, calls = [CallGet ''gw-1'']\<rparr>)"
    by simp
  from T [THEN conjunct2, THEN conjunct1] c
  have p: "WaitForState ?conf fresh_cloud
      = Some (Inl (ErrDefault404 ''gw-1''), 1, \<lparr>remote = 1, calls = [CallGet ''gw-1'']\<rparr>)"
    by (simp add: WaitForState_def)
  from g w p show ?thesis by simp
qed

end
